theory Spec2Isabelle
  imports Complex_Main "HOL-Library.Char_ord" "HOL-Library.List_Lexorder" "HOL-Library.AList"
begin

section \<open>Python values shared by the modules\<close>

text \<open>
  Paths, URLs and document text are Python \<open>str\<close> values, modelled as \<open>string\<close>.
  Strings are compared as Python compares them: lexicographically, character by character
  (the order of \<open>HOL-Library.List_Lexorder\<close> over \<open>HOL-Library.Char_ord\<close>).
  Every exception the modelled code can raise or catch is a value of \<open>py_exception\<close>.
\<close>

type_synonym path = string

datatype py_exception =
    FileNotFoundError
  | NoPdfLibrary
  | BackendFailure
  | ReError
  | AttributeError
  | OSError
  | ValidationError
  | HTTPError
  | JSONDecodeError

text \<open>\<open>sep.join(parts)\<close>\<close>

fun join :: "string \<Rightarrow> string list \<Rightarrow> string" where
  "join sep [] = []"
| "join sep [x] = x"
| "join sep (x # y # ys) = x @ sep @ join sep (y # ys)"

text \<open>\<open>str(n)\<close> for a non-negative integer, as an f-string renders it.\<close>

definition digit_char :: "nat \<Rightarrow> char" where
  "digit_char d = ''0123456789'' ! d"

fun str_nat :: "nat \<Rightarrow> string" where
  "str_nat n = (if n < 10 then [digit_char n]
                else str_nat (n div 10) @ [digit_char (n mod 10)])"

declare str_nat.simps [simp del]

text \<open>\<open>s.replace('-', '')\<close>\<close>

definition remove_hyphens :: "string \<Rightarrow> string" where
  "remove_hyphens s = filter (\<lambda>c. c \<noteq> CHR ''-'') s"

section \<open>utils/pdf\_parser.py\<close>

text \<open>
  The two PDF libraries and the file system are outside the repository. The environment
  gives, for each path: whether it exists, its size in bytes, its final component
  (\<open>Path(p).name\<close>), and what each library does when it opens the file and calls
  \<open>extract_text()\<close> on every page: an exception, or the list of page texts (a page for
  which \<open>extract_text()\<close> gives \<open>None\<close> or \<open>''\<close> is the empty string; the source
  treats both alike). \<open>pypdf2_metadata\<close> is \<open>PdfReader(file).metadata\<close>: an exception,
  \<open>None\<close>, or a dictionary. The two flags are the module constants set at import.
\<close>

record pdf_env =
  PDFPLUMBER_AVAILABLE :: bool
  PYPDF2_AVAILABLE :: bool
  path_exists :: "path \<Rightarrow> bool"
  st_size :: "path \<Rightarrow> nat"
  path_name :: "path \<Rightarrow> string"
  pdfplumber_pages :: "path \<Rightarrow> py_exception + string list"
  pypdf2_pages :: "path \<Rightarrow> py_exception + string list"
  pypdf2_metadata :: "path \<Rightarrow> py_exception + (string \<times> string) list option"

datatype backend = Pdfplumber | PyPDF2

record pdf_result =
  text_content :: string
  page_count :: nat
  size_kb :: rat
  metadata :: "(string \<times> string) list"

text \<open>
  The body of the page loop shared by both backends:
  \<^verbatim>\<open>for page_num, page in enumerate(pages, 1):
      page_text = page.extract_text()
      if page_text:
          text_parts.append(f"\n--- Page {page_num} ---\n")
          text_parts.append(page_text)\<close>
\<close>

fun text_parts :: "nat \<Rightarrow> string list \<Rightarrow> string list" where
  "text_parts page_num [] = []"
| "text_parts page_num (page_text # pages) =
     (if page_text \<noteq> []
      then [''\<newline>--- Page '' @ str_nat page_num @ '' ---\<newline>'', page_text]
      else []) @ text_parts (Suc page_num) pages"

text \<open>
  \<open>_parse_with_pdfplumber\<close> and \<open>_parse_with_pypdf2\<close>: any exception of the library is
  caught inside the helper, which then returns \<open>("", 0)\<close>.
\<close>

definition parse_with_pdfplumber :: "'a pdf_env_scheme \<Rightarrow> path \<Rightarrow> string \<times> nat" where
  "parse_with_pdfplumber env pdf_path =
     (case pdfplumber_pages env pdf_path of
        Inl e \<Rightarrow> ([], 0)
      | Inr pages \<Rightarrow> (join ''\<newline>'' (text_parts 1 pages), length pages))"

definition parse_with_pypdf2 :: "'a pdf_env_scheme \<Rightarrow> path \<Rightarrow> string \<times> nat" where
  "parse_with_pypdf2 env pdf_path =
     (case pypdf2_pages env pdf_path of
        Inl e \<Rightarrow> ([], 0)
      | Inr pages \<Rightarrow> (join ''\<newline>'' (text_parts 1 pages), length pages))"

text \<open>\<open>d.get(key, '')\<close> on the metadata dictionary.\<close>

definition get_or_empty :: "(string \<times> string) list \<Rightarrow> string \<Rightarrow> string" where
  "get_or_empty d k = (case map_of d k of None \<Rightarrow> [] | Some v \<Rightarrow> v)"

text \<open>\<open>_extract_metadata\<close>: best effort, every exception is swallowed.\<close>

definition extract_metadata :: "'a pdf_env_scheme \<Rightarrow> path \<Rightarrow> (string \<times> string) list" where
  "extract_metadata env pdf_path =
     (let metadata = [(''filename'', path_name env pdf_path)] in
      if \<not> PYPDF2_AVAILABLE env then metadata
      else (case pypdf2_metadata env pdf_path of
              Inl e \<Rightarrow> metadata
            | Inr None \<Rightarrow> metadata
            | Inr (Some d) \<Rightarrow>
                if d = [] then metadata
                else metadata @
                  [(''title'', get_or_empty d ''/Title''),
                   (''author'', get_or_empty d ''/Author''),
                   (''subject'', get_or_empty d ''/Subject''),
                   (''creator'', get_or_empty d ''/Creator'')]))"

text \<open>
  \<open>parse_pdf\<close>. The field \<open>text_content\<close> is the key \<open>'text'\<close> of the returned
  dictionary. The result is the exception raised, or the returned dictionary together
  with the list of backend helpers the call invoked, in call order (the record of the
  calls to \<open>_parse_with_pdfplumber\<close> and \<open>_parse_with_pypdf2\<close>; the dictionary itself
  does not hold it). \<open>primary\<close> is the first \<open>if\<close>/\<open>elif\<close>/\<open>else\<close>, \<open>parse_pdf\<close> adds
  the fallback, and the \<open>except ... raise\<close> of the source passes an exception on
  unchanged.
\<close>

definition primary :: "'a pdf_env_scheme \<Rightarrow> path \<Rightarrow> py_exception + ((string \<times> nat) \<times> backend list)" where
  "primary env pdf_path =
     (if PDFPLUMBER_AVAILABLE env then Inr (parse_with_pdfplumber env pdf_path, [Pdfplumber])
      else if PYPDF2_AVAILABLE env then Inr (parse_with_pypdf2 env pdf_path, [PyPDF2])
      else Inl NoPdfLibrary)"

definition parse_pdf :: "'a pdf_env_scheme \<Rightarrow> path \<Rightarrow> py_exception + (pdf_result \<times> backend list)" where
  "parse_pdf env pdf_path =
     (if \<not> path_exists env pdf_path then Inl FileNotFoundError
      else (case primary env pdf_path of
              Inl e \<Rightarrow> Inl e
            | Inr ((txt, pages), calls) \<Rightarrow>
                (let ((text_content', page_count'), calls') =
                       (if length txt < 100 \<and> PYPDF2_AVAILABLE env \<and> PDFPLUMBER_AVAILABLE env
                        then (parse_with_pypdf2 env pdf_path, calls @ [PyPDF2])
                        else ((txt, pages), calls))
                 in Inr (\<lparr>text_content = text_content',
                           page_count = page_count',
                           size_kb = of_nat (st_size env pdf_path) / 1024,
                           metadata = extract_metadata env pdf_path\<rparr>, calls'))))"

section \<open>utils/pin\_extractor.py\<close>

text \<open>
  The regular-expression engine is Python's \<open>re\<close> module. \<open>re_findall env pattern text\<close>
  is \<open>re.findall(pattern, text, re.IGNORECASE)\<close>: an exception (\<open>re.error\<close> for a
  pattern that does not compile), a list of strings (a pattern with at most one group),
  or a list of tuples (a pattern with several groups). \<open>glob_pdf env d\<close> is
  \<open>list(Path(d).glob("*.pdf"))\<close>, each path as \<open>str\<close> gives it.
\<close>

datatype re_matches = Strings "string list" | Tuples "string list list"

record pin_env = pdf_env +
  re_findall :: "string \<Rightarrow> string \<Rightarrow> py_exception + re_matches"
  glob_pdf :: "path \<Rightarrow> py_exception + path list"

definition bs :: string where
  "bs = [CHR 0x5C]"

text \<open>\<open>DEFAULT_PATTERNS\<close>; \<open>bs\<close> is the backslash.\<close>

definition DEFAULT_PATTERNS :: "string list" where
  "DEFAULT_PATTERNS =
     [''TAX'' @ bs @ ''s+PARCEL'' @ bs @ ''s*(?:NO'' @ bs @ ''.?|NUMBER|#)?[:'' @ bs @ ''s]*('' @ bs @ ''d{8})'',
      ''TAX'' @ bs @ ''s+PARCEL'' @ bs @ ''s+NO'' @ bs @ ''.?'' @ bs @ ''s+('' @ bs @ ''d{3}-'' @ bs @ ''d{3}-'' @ bs @ ''d{2})'',
      ''PID'' @ bs @ ''s*[#:'' @ bs @ ''s]+('' @ bs @ ''d{8})'',
      ''PARCEL'' @ bs @ ''s+ID[:'' @ bs @ ''s]*('' @ bs @ ''d{8})'',
      ''TCA[:'' @ bs @ ''s]*('' @ bs @ ''d{8})'']"

text \<open>\<open>PINExtractor.__init__\<close>: \<open>self.patterns = patterns or self.DEFAULT_PATTERNS\<close>.\<close>

definition init_patterns :: "string list option \<Rightarrow> string list" where
  "init_patterns patterns =
     (case patterns of
        None \<Rightarrow> DEFAULT_PATTERNS
      | Some ps \<Rightarrow> if ps = [] then DEFAULT_PATTERNS else ps)"

text \<open>
  The pattern loop of \<open>extract_from_pdf\<close>, with the set \<open>pins\<close> as accumulator. An
  exception leaves the loop: \<open>re.findall\<close> may raise, and \<open>m.replace\<close> raises
  \<open>AttributeError\<close> when \<open>m\<close> is a tuple.
\<close>

fun search_patterns ::
  "'a pin_env_scheme \<Rightarrow> string \<Rightarrow> string list \<Rightarrow> string set \<Rightarrow> py_exception + string set" where
  "search_patterns env txt [] pins = Inr pins"
| "search_patterns env txt (pattern # patterns) pins =
     (case re_findall env pattern txt of
        Inl e \<Rightarrow> Inl e
      | Inr (Strings matches) \<Rightarrow>
          search_patterns env txt patterns (pins \<union> set (map remove_hyphens matches))
      | Inr (Tuples []) \<Rightarrow> search_patterns env txt patterns pins
      | Inr (Tuples (m # ms)) \<Rightarrow> Inl AttributeError)"

text \<open>
  \<open>extract_from_pdf\<close>: every exception is caught and gives \<open>[]\<close>. \<open>patterns\<close> is
  \<open>self.patterns\<close>.
\<close>

definition extract_from_pdf :: "'a pin_env_scheme \<Rightarrow> string list \<Rightarrow> path \<Rightarrow> string list" where
  "extract_from_pdf env patterns pdf_path =
     (if \<not> path_exists env pdf_path then []
      else (case parse_pdf env pdf_path of
              Inl e \<Rightarrow> []
            | Inr (result, calls) \<Rightarrow>
                if text_content result = [] then []
                else (case search_patterns env (text_content result) patterns {} of
                        Inl e \<Rightarrow> []
                      | Inr pins \<Rightarrow> sorted_list_of_set pins)))"

text \<open>The loop \<open>for pdf in ...: all_pins.update(self.extract_from_pdf(pdf))\<close>.\<close>

definition collect_pins :: "'a pin_env_scheme \<Rightarrow> string list \<Rightarrow> path list \<Rightarrow> string set" where
  "collect_pins env patterns pdf_paths =
     fold (\<lambda>pdf_path all_pins. all_pins \<union> set (extract_from_pdf env patterns pdf_path)) pdf_paths {}"

definition extract_from_directory :: "'a pin_env_scheme \<Rightarrow> string list \<Rightarrow> path \<Rightarrow> string list" where
  "extract_from_directory env patterns directory =
     (if \<not> path_exists env directory then []
      else (case glob_pdf env directory of
              Inl e \<Rightarrow> []
            | Inr pdf_files \<Rightarrow>
                if pdf_files = [] then []
                else sorted_list_of_set (collect_pins env patterns pdf_files)))"

definition extract_batch :: "'a pin_env_scheme \<Rightarrow> string list \<Rightarrow> path list \<Rightarrow> string list" where
  "extract_batch env patterns pdf_paths = sorted_list_of_set (collect_pins env patterns pdf_paths)"

text \<open>
  A document fails to parse when the file is missing, when \<open>parse_pdf\<close> raises, or when
  the backend whose result \<open>parse_pdf\<close> returns (the last one invoked) raised inside
  its helper (corrupt content).
\<close>

definition backend_raises :: "'a pdf_env_scheme \<Rightarrow> backend \<Rightarrow> path \<Rightarrow> bool" where
  "backend_raises env b pdf_path =
     (case b of
        Pdfplumber \<Rightarrow> isl (pdfplumber_pages env pdf_path)
      | PyPDF2 \<Rightarrow> isl (pypdf2_pages env pdf_path))"

definition fails_to_parse :: "'a pdf_env_scheme \<Rightarrow> path \<Rightarrow> bool" where
  "fails_to_parse env pdf_path =
     (\<not> path_exists env pdf_path \<or>
      (case parse_pdf env pdf_path of
         Inl e \<Rightarrow> True
       | Inr (result, calls) \<Rightarrow> backend_raises env (last calls) pdf_path))"

section \<open>agents/charlottenc\_legistar/models.py\<close>

text \<open>
  The pydantic models. The fields filled by a default factory that reads the clock or the
  random generator (\<open>petition_id\<close>, \<open>meeting_id\<close>, \<open>scraped_at\<close>) are left out: no
  function modelled here reads them. An \<open>Optional[str]\<close> field is a \<open>string option\<close>.
\<close>

record petition =
  file_number :: string
  petition_number :: "string option"
  location :: "string option"
  address :: "string option"
  current_zoning :: "string option"
  proposed_zoning :: "string option"
  petitioner :: "string option"
  status :: "string option"
  action :: "string option"
  vote_result :: "string option"
  legislation_url :: "string option"
  pins :: "string list option"

record meeting =
  meeting_type :: string
  meeting_date :: string
  meeting_time :: "string option"
  location :: "string option"
  meeting_details_url :: string
  agenda_url :: "string option"
  petitions :: "petition list"

record scraper_stats =
  total_meetings :: nat
  total_petitions :: nat
  zoning_meetings :: nat
  petitions_with_pins :: nat
  total_pins :: nat
  last_scrape_time :: "string option"

text \<open>
  The constructor call \<open>Meeting(...)\<close> of \<open>_parse_calendar_row\<close>: pydantic validates the
  arguments, and \<open>meeting_details_url: str\<close> rejects \<open>None\<close>. The other arguments of that
  call are strings or optional fields by construction.
\<close>

definition Meeting_init ::
  "string \<Rightarrow> string \<Rightarrow> string option \<Rightarrow> string option \<Rightarrow> string option \<Rightarrow> string option
     \<Rightarrow> py_exception + meeting" where
  "Meeting_init mtype mdate mtime loc details_url agenda =
     (case details_url of
        None \<Rightarrow> Inl ValidationError
      | Some u \<Rightarrow>
          Inr \<lparr>meeting_type = mtype, meeting_date = mdate, meeting_time = mtime,
               location = loc, meeting_details_url = u, agenda_url = agenda,
               petitions = []\<rparr>)"

text \<open>\<open>ScraperStats()\<close> with every default.\<close>

definition ScraperStats_default :: scraper_stats where
  "ScraperStats_default =
     \<lparr>total_meetings = 0, total_petitions = 0, zoning_meetings = 0,
      petitions_with_pins = 0, total_pins = 0, last_scrape_time = None\<rparr>"

section \<open>agents/charlottenc\_legistar/scraper.py\<close>

text \<open>
  What BeautifulSoup gives for a calendar row: \<open>row.find_all('td')\<close> is a list of cells;
  of a cell the code reads \<open>get_text(strip=True)\<close>, the first \<open>a\<close> element (its text and
  its \<open>href\<close> attribute, which may be absent) and the text of the first \<open>span\<close>.
  \<open>strptime\<close> is \<open>datetime.strptime\<close> (\<open>None\<close> for \<open>ValueError\<close>, the only exception
  it raises on a string with these formats), a \<open>datetime\<close> is (year, month, day), and
  \<open>strftime\<close> is \<open>datetime.strftime\<close>. \<open>calendar_page\<close> is the HTTP request for the
  calendar followed by \<open>raise_for_status\<close> and the row selection; \<open>meeting_details\<close> is
  \<open>fetch_meeting_details\<close>, the request and parse of one meeting's agenda.
\<close>

record anchor =
  anchor_text :: string
  href :: "string option"

record cell =
  cell_text :: string
  cell_a :: "anchor option"
  cell_span :: "string option"

type_synonym row = "cell list"

type_synonym datetime = "nat \<times> nat \<times> nat"

record scraper_env =
  base_url :: string
  strptime :: "string \<Rightarrow> string \<Rightarrow> datetime option"
  strftime :: "datetime \<Rightarrow> string \<Rightarrow> string"
  calendar_page :: "py_exception + row list"
  meeting_details :: "meeting \<Rightarrow> py_exception + meeting"

text \<open>\<open>_make_absolute_url\<close>; an absent attribute is \<open>None\<close>.\<close>

definition make_absolute_url :: "'a scraper_env_scheme \<Rightarrow> string option \<Rightarrow> string option" where
  "make_absolute_url env url =
     (case url of
        None \<Rightarrow> None
      | Some u \<Rightarrow>
          if u = [] \<or> u = ''#'' then None
          else if take 4 u = ''http'' then Some u
          else Some (base_url env @ ''/'' @ dropWhile (\<lambda>c. c = CHR ''/'') u))"

text \<open>\<open>_parse_date\<close>: the formats are tried in the order of the list.\<close>

fun try_formats :: "'a scraper_env_scheme \<Rightarrow> string \<Rightarrow> string list \<Rightarrow> string option" where
  "try_formats env date_str [] = None"
| "try_formats env date_str (fmt # fmts) =
     (case strptime env date_str fmt of
        Some dt \<Rightarrow> Some (strftime env dt ''%Y-%m-%d'')
      | None \<Rightarrow> try_formats env date_str fmts)"

definition date_formats :: "string list" where
  "date_formats = [''%m/%d/%Y'', ''%Y-%m-%d'', ''%B %d, %Y'']"

definition parse_date :: "'a scraper_env_scheme \<Rightarrow> string \<Rightarrow> string option" where
  "parse_date env date_str = try_formats env date_str date_formats"

text \<open>
  \<open>_parse_calendar_row\<close>. \<open>if not meeting_date\<close> is true for \<open>None\<close> and for the empty
  string. The \<open>except Exception\<close> around the body turns the validation error of the
  constructor into \<open>None\<close>.
\<close>

definition parse_calendar_row :: "'a scraper_env_scheme \<Rightarrow> row \<Rightarrow> meeting option" where
  "parse_calendar_row env cells =
     (if length cells < 5 then None
      else
        let mtype = (case cell_a (cells ! 0) of
                       Some a \<Rightarrow> anchor_text a
                     | None \<Rightarrow> cell_text (cells ! 0))
        in (case parse_date env (cell_text (cells ! 1)) of
              None \<Rightarrow> None
            | Some mdate \<Rightarrow>
                if mdate = [] then None
                else
                  let mtime = (case cell_span (cells ! 3) of
                                 Some t \<Rightarrow> t
                               | None \<Rightarrow> cell_text (cells ! 3));
                      loc = cell_text (cells ! 4);
                      meeting_details_link = (if length cells > 5 then cell_a (cells ! 5) else None)
                  in (case meeting_details_link of
                        None \<Rightarrow> None
                      | Some link \<Rightarrow>
                          let details_url = make_absolute_url env (href link);
                              agenda_link = (if length cells > 6 then cell_a (cells ! 6) else None);
                              agenda = (case agenda_link of
                                          Some a \<Rightarrow> make_absolute_url env (href a)
                                        | None \<Rightarrow> None)
                          in (case Meeting_init mtype mdate (Some mtime) (Some loc) details_url agenda of
                                Inl e \<Rightarrow> None
                              | Inr m \<Rightarrow> Some m))))"

text \<open>The row loop of \<open>fetch_calendar\<close>.\<close>

fun parse_rows :: "'a scraper_env_scheme \<Rightarrow> row list \<Rightarrow> meeting list" where
  "parse_rows env [] = []"
| "parse_rows env (r # rows) =
     (case parse_calendar_row env r of
        Some m \<Rightarrow> m # parse_rows env rows
      | None \<Rightarrow> parse_rows env rows)"

text \<open>
  \<open>_filter_by_date\<close>: \<open>if start_date\<close> is false for \<open>None\<close> and for the empty string;
  dates are compared as strings.
\<close>

definition given :: "string option \<Rightarrow> bool" where
  "given d = (case d of None \<Rightarrow> False | Some s \<Rightarrow> s \<noteq> [])"

definition filter_by_date :: "meeting list \<Rightarrow> string option \<Rightarrow> string option \<Rightarrow> meeting list" where
  "filter_by_date meetings start_date end_date =
     (let filtered = meetings;
          filtered = (if given start_date
                      then filter (\<lambda>m. meeting_date m \<ge> the start_date) filtered
                      else filtered);
          filtered = (if given end_date
                      then filter (\<lambda>m. meeting_date m \<le> the end_date) filtered
                      else filtered)
      in filtered)"

definition fetch_calendar ::
  "'a scraper_env_scheme \<Rightarrow> string option \<Rightarrow> string option \<Rightarrow> py_exception + meeting list" where
  "fetch_calendar env start_date end_date =
     (case calendar_page env of
        Inl e \<Rightarrow> Inl e
      | Inr meeting_rows \<Rightarrow>
          let meetings = parse_rows env meeting_rows
          in Inr (if given start_date \<or> given end_date
                  then filter_by_date meetings start_date end_date
                  else meetings))"

text \<open>\<open>s.lower()\<close> on ASCII text, and \<open>keyword in s\<close>.\<close>

definition lower_char :: "char \<Rightarrow> char" where
  "lower_char c =
     (case map_of (zip ''ABCDEFGHIJKLMNOPQRSTUVWXYZ'' ''abcdefghijklmnopqrstuvwxyz'') c of
        Some d \<Rightarrow> d
      | None \<Rightarrow> c)"

definition lower :: "string \<Rightarrow> string" where
  "lower s = map lower_char s"

fun contains :: "string \<Rightarrow> string \<Rightarrow> bool" where
  "contains [] keyword = (keyword = [])"
| "contains (c # cs) keyword = (take (length keyword) (c # cs) = keyword \<or> contains cs keyword)"

text \<open>
  \<open>scrape_all\<close>: the calendar, the keyword filter on the meeting type, then the details of
  each meeting; a meeting whose details request raises is dropped.
\<close>

fun detail_loop :: "'a scraper_env_scheme \<Rightarrow> meeting list \<Rightarrow> meeting list" where
  "detail_loop env [] = []"
| "detail_loop env (m # ms) =
     (case meeting_details env m of
        Inr detailed_meeting \<Rightarrow> detailed_meeting # detail_loop env ms
      | Inl e \<Rightarrow> detail_loop env ms)"

definition scrape_all ::
  "'a scraper_env_scheme \<Rightarrow> bool \<Rightarrow> string option \<Rightarrow> string option \<Rightarrow> py_exception + meeting list" where
  "scrape_all env filter_zoning start_date end_date =
     (case fetch_calendar env start_date end_date of
        Inl e \<Rightarrow> Inl e
      | Inr meetings \<Rightarrow>
          let meetings' =
                (if filter_zoning
                 then filter (\<lambda>m. list_ex (\<lambda>keyword. contains (lower (meeting_type m)) keyword)
                                     [''zoning'', ''rezoning'', ''planning'']) meetings
                 else meetings)
          in Inr (detail_loop env meetings'))"

section \<open>utils/gis\_client.py and agents/charlottenc\_legistar/gis\_fetcher.py\<close>

text \<open>
  JSON values (an object is kept as an association list in insertion order), and a
  GeoJSON feature as the client returns it: the value of its \<open>geometry\<close> member and the
  value of its \<open>properties\<close> member. The service is asked for \<open>outFields=*\<close> and
  normally answers with an object of parcel attributes there, but nothing in the client
  checks the kind of that value: it may be \<open>null\<close> or any other JSON value.
  \<open>gis_query env pid\<close> is everything inside the \<open>try\<close> of \<open>get_parcel_by_pid\<close> up to the
  feature list: the request \<open>where=PID='<pid>'\<close> with \<open>raise_for_status\<close>, the decoding of
  the answer and the reading of \<open>feature['properties']\<close> for the log line. It is an
  exception (also the one raised by that reading when the first feature is not an object
  or has no \<open>properties\<close> member), or the list under \<open>features\<close> (empty when the member
  is missing or empty).
\<close>

datatype json = JNull | JBool bool | JNum rat | JStr string | JArr "json list" | JObj "(string \<times> json) list"

record feature =
  geometry :: json
  properties :: json

record feature_collection =
  collection_type :: string
  features :: "feature list"

record gis_env =
  gis_query :: "string \<Rightarrow> py_exception + feature list"

text \<open>\<open>get_parcel_by_pid\<close>: the first feature, \<open>None\<close> when there is none or on any exception.\<close>

definition get_parcel_by_pid :: "'a gis_env_scheme \<Rightarrow> string \<Rightarrow> feature option" where
  "get_parcel_by_pid env pid =
     (case gis_query env pid of
        Inl e \<Rightarrow> None
      | Inr [] \<Rightarrow> None
      | Inr (f # fs) \<Rightarrow> Some f)"

definition empty_geojson :: feature_collection where
  "empty_geojson = \<lparr>collection_type = ''FeatureCollection'', features = []\<rparr>"

text \<open>\<open>d.update({...})\<close>: a key already present keeps its place and takes the new value.\<close>

definition dict_update :: "(string \<times> json) list \<Rightarrow> (string \<times> json) list \<Rightarrow> (string \<times> json) list" where
  "dict_update d kvs = fold (\<lambda>(k, v) acc. AList.update k v acc) kvs d"

text \<open>
  \<open>parcel['properties'].update({...})\<close>: the update of the dictionary when the value is
  an object; \<open>None\<close>, a string, a number, a boolean and a list have no attribute
  \<open>update\<close>, and the expression raises \<open>AttributeError\<close>.
\<close>

definition update_properties :: "feature \<Rightarrow> (string \<times> json) list \<Rightarrow> py_exception + feature" where
  "update_properties parcel kvs =
     (case properties parcel of
        JObj d \<Rightarrow> Inr (parcel\<lparr>properties := JObj (dict_update d kvs)\<rparr>)
      | _ \<Rightarrow> Inl AttributeError)"

definition json_opt :: "string option \<Rightarrow> json" where
  "json_opt v = (case v of None \<Rightarrow> JNull | Some s \<Rightarrow> JStr s)"

text \<open>\<open>petition.petition_number or petition.file_number\<close>\<close>

definition number_or_file :: "'a petition_scheme \<Rightarrow> string" where
  "number_or_file p =
     (case petition_number p of
        None \<Rightarrow> file_number p
      | Some n \<Rightarrow> if n = [] then file_number p else n)"

text \<open>The dictionary literal passed to \<open>update\<close>.\<close>

definition petition_metadata :: "'a petition_scheme \<Rightarrow> string \<Rightarrow> string \<Rightarrow> (string \<times> json) list" where
  "petition_metadata p mdate mtype =
     [(''petition_number'', JStr (number_or_file p)),
      (''file_number'', JStr (file_number p)),
      (''location'', json_opt (petition.location p)),
      (''status'', json_opt (status p)),
      (''current_zoning'', json_opt (current_zoning p)),
      (''proposed_zoning'', json_opt (proposed_zoning p)),
      (''petitioner'', json_opt (petitioner p)),
      (''meeting_date'', JStr mdate),
      (''meeting_type'', JStr mtype)]"

text \<open>
  The state of the two nested loops of \<open>fetch_parcels_for_petitions\<close>: the list of
  features and the two counters of the summary log line. \<open>lookup_pin\<close> is the body of
  the inner loop. The update of the properties stands outside every \<open>try\<close> of the
  module, so its exception leaves both loops and the function.
\<close>

record fetch_state =
  all_features :: "feature list"
  total_parcels :: nat
  total_found :: nat

definition lookup_pin ::
  "'a gis_env_scheme \<Rightarrow> 'b petition_scheme \<Rightarrow> string \<Rightarrow> string \<Rightarrow> string \<Rightarrow> fetch_state
     \<Rightarrow> py_exception + fetch_state" where
  "lookup_pin env p mdate mtype pin s =
     (let s1 = s\<lparr>total_parcels := total_parcels s + 1\<rparr>
      in (case get_parcel_by_pid env pin of
            Some parcel \<Rightarrow>
              (case update_properties parcel (petition_metadata p mdate mtype) of
                 Inl e \<Rightarrow> Inl e
               | Inr parcel' \<Rightarrow>
                   Inr (s1\<lparr>all_features := all_features s1 @ [parcel'],
                           total_found := total_found s1 + 1\<rparr>))
          | None \<Rightarrow> Inr s1))"

definition pins_of :: "'a petition_scheme \<Rightarrow> string list" where
  "pins_of p = (case pins p of None \<Rightarrow> [] | Some ps \<Rightarrow> ps)"

text \<open>\<open>for pin in pins\<close>\<close>

fun pins_loop ::
  "'a gis_env_scheme \<Rightarrow> 'b petition_scheme \<Rightarrow> string \<Rightarrow> string \<Rightarrow> string list \<Rightarrow> fetch_state
     \<Rightarrow> py_exception + fetch_state" where
  "pins_loop env p mdate mtype [] s = Inr s"
| "pins_loop env p mdate mtype (pin # rest) s =
     (case lookup_pin env p mdate mtype pin s of
        Inl e \<Rightarrow> Inl e
      | Inr s' \<Rightarrow> pins_loop env p mdate mtype rest s')"

text \<open>\<open>for petition in petitions_with_pins\<close>\<close>

fun fetch_loop ::
  "'a gis_env_scheme \<Rightarrow> 'b petition_scheme list \<Rightarrow> string \<Rightarrow> string \<Rightarrow> fetch_state
     \<Rightarrow> py_exception + fetch_state" where
  "fetch_loop env [] mdate mtype s = Inr s"
| "fetch_loop env (p # with_pins) mdate mtype s =
     (case pins_loop env p mdate mtype (pins_of p) s of
        Inl e \<Rightarrow> Inl e
      | Inr s' \<Rightarrow> fetch_loop env with_pins mdate mtype s')"

definition fetch_parcels_for_petitions ::
  "'a gis_env_scheme \<Rightarrow> 'b petition_scheme list \<Rightarrow> string \<Rightarrow> string
     \<Rightarrow> py_exception + feature_collection" where
  "fetch_parcels_for_petitions env ps mdate mtype =
     (let with_pins = filter (\<lambda>p. pins_of p \<noteq> []) ps
      in if with_pins = [] then Inr empty_geojson
         else (case fetch_loop env with_pins mdate mtype
                      \<lparr>all_features = [], total_parcels = 0, total_found = 0\<rparr> of
                 Inl e \<Rightarrow> Inl e
               | Inr s \<Rightarrow> Inr \<lparr>collection_type = ''FeatureCollection'', features = all_features s\<rparr>))"

text \<open>
  \<open>fetch_parcels_for_all_meetings\<close>: the loop over the meetings extends the list by the
  features of each meeting; an exception of one meeting leaves the function.
\<close>

fun meetings_loop :: "'a gis_env_scheme \<Rightarrow> meeting list \<Rightarrow> feature list \<Rightarrow> py_exception + feature list" where
  "meetings_loop env [] acc = Inr acc"
| "meetings_loop env (m # ms) acc =
     (case fetch_parcels_for_petitions env (petitions m) (meeting_date m) (meeting_type m) of
        Inl e \<Rightarrow> Inl e
      | Inr geojson \<Rightarrow> meetings_loop env ms (acc @ features geojson))"

definition fetch_parcels_for_all_meetings ::
  "'a gis_env_scheme \<Rightarrow> meeting list \<Rightarrow> py_exception + feature_collection" where
  "fetch_parcels_for_all_meetings env meetings =
     (case meetings_loop env meetings [] of
        Inl e \<Rightarrow> Inl e
      | Inr fs \<Rightarrow> Inr \<lparr>collection_type = ''FeatureCollection'', features = fs\<rparr>)"

section \<open>agents/charlottenc\_legistar/storage.py\<close>

text \<open>
  The four artifacts of a data directory. A file is absent (\<open>None\<close>) or present; a
  present file holds a document that loads (\<open>Content\<close>) or bytes on which \<open>json.load\<close>
  or the validation of the loaded value raises (\<open>Unreadable\<close>). The JSON encoding itself
  is not modelled. \<open>now\<close> is \<open>datetime.now().isoformat()\<close>.
\<close>

datatype 'a stored = Unreadable | Content 'a

datatype artifact = MeetingsFile | PetitionsFile | StatsFile | ParcelsFile

record petition_dict = petition +
  dict_meeting_date :: string
  dict_meeting_type :: string

record meetings_doc =
  doc_meetings :: "meeting list"
  meetings_last_updated :: string
  meetings_total_count :: nat

record petitions_doc =
  doc_petitions :: "petition_dict list"
  petitions_last_updated :: string
  petitions_total_count :: nat

record storage =
  meetings_file :: "meetings_doc stored option"
  petitions_file :: "petitions_doc stored option"
  stats_file :: "scraper_stats stored option"
  parcels_file :: "feature_collection stored option"

text \<open>
  Every save method ends with \<open>with open(file, 'w') as f: json.dump(data, f)\<close>.
  \<open>write_result env a\<close> says how that goes for artifact \<open>a\<close> in this run: the document is
  written; or an exception is raised before the file is open (while the data are built, or
  by \<open>open\<close> itself), and the file is as it was; or an exception is raised after \<open>open\<close>,
  which has emptied the file, and before the document is complete on disk. Every document
  is a JSON object, so what is left then, an empty file or a proper prefix of the
  document, is bytes on which \<open>json.load\<close> raises.
\<close>

datatype write_outcome = Written | NotOpened py_exception | Truncated py_exception

record storage_env =
  now :: string
  write_result :: "artifact \<Rightarrow> write_outcome"

definition write_json ::
  "write_outcome \<Rightarrow> 'a stored option \<Rightarrow> 'a \<Rightarrow> 'a stored option \<times> (py_exception + unit)" where
  "write_json outcome old_file document =
     (case outcome of
        Written \<Rightarrow> (Some (Content document), Inr ())
      | NotOpened e \<Rightarrow> (old_file, Inl e)
      | Truncated e \<Rightarrow> (Some Unreadable, Inl e))"

definition save_meetings ::
  "'a storage_env_scheme \<Rightarrow> storage \<Rightarrow> meeting list \<Rightarrow> storage \<times> (py_exception + unit)" where
  "save_meetings env st meetings =
     (case write_json (write_result env MeetingsFile) (meetings_file st)
             \<lparr>doc_meetings = meetings,
              meetings_last_updated = now env,
              meetings_total_count = length meetings\<rparr> of
        (file, r) \<Rightarrow> (st\<lparr>meetings_file := file\<rparr>, r))"

definition all_petitions :: "meeting list \<Rightarrow> petition_dict list" where
  "all_petitions meetings =
     concat (map (\<lambda>m. map (\<lambda>p. petition.extend p
                                   (petition_dict.fields (meeting_date m) (meeting_type m)))
                          (petitions m)) meetings)"

definition save_petitions ::
  "'a storage_env_scheme \<Rightarrow> storage \<Rightarrow> meeting list \<Rightarrow> storage \<times> (py_exception + unit)" where
  "save_petitions env st meetings =
     (case write_json (write_result env PetitionsFile) (petitions_file st)
             \<lparr>doc_petitions = all_petitions meetings,
              petitions_last_updated = now env,
              petitions_total_count = length (all_petitions meetings)\<rparr> of
        (file, r) \<Rightarrow> (st\<lparr>petitions_file := file\<rparr>, r))"

definition compute_stats :: "'a storage_env_scheme \<Rightarrow> meeting list \<Rightarrow> scraper_stats" where
  "compute_stats env meetings =
     \<lparr>total_meetings = length meetings,
      total_petitions = sum_list (map (\<lambda>m. length (petitions m)) meetings),
      zoning_meetings = length (filter (\<lambda>m. contains (lower (meeting_type m)) ''zoning'') meetings),
      petitions_with_pins =
        length (filter (\<lambda>p. pins_of p \<noteq> []) (concat (map petitions meetings))),
      total_pins = sum_list (map (\<lambda>p. length (pins_of p)) (concat (map petitions meetings))),
      last_scrape_time = Some (now env)\<rparr>"

definition save_stats ::
  "'a storage_env_scheme \<Rightarrow> storage \<Rightarrow> meeting list \<Rightarrow> storage \<times> (py_exception + unit)" where
  "save_stats env st meetings =
     (case write_json (write_result env StatsFile) (stats_file st) (compute_stats env meetings) of
        (file, r) \<Rightarrow> (st\<lparr>stats_file := file\<rparr>, r))"

definition save_parcels_geojson ::
  "'a storage_env_scheme \<Rightarrow> storage \<Rightarrow> feature_collection \<Rightarrow> storage \<times> (py_exception + unit)" where
  "save_parcels_geojson env st geojson =
     (case write_json (write_result env ParcelsFile) (parcels_file st) geojson of
        (file, r) \<Rightarrow> (st\<lparr>parcels_file := file\<rparr>, r))"

definition load_meetings :: "storage \<Rightarrow> py_exception + meeting list" where
  "load_meetings st =
     (case meetings_file st of
        None \<Rightarrow> Inr []
      | Some Unreadable \<Rightarrow> Inl JSONDecodeError
      | Some (Content d) \<Rightarrow> Inr (doc_meetings d))"

definition load_petitions :: "storage \<Rightarrow> py_exception + petition_dict list" where
  "load_petitions st =
     (case petitions_file st of
        None \<Rightarrow> Inr []
      | Some Unreadable \<Rightarrow> Inl JSONDecodeError
      | Some (Content d) \<Rightarrow> Inr (doc_petitions d))"

definition get_stats :: "storage \<Rightarrow> py_exception + scraper_stats" where
  "get_stats st =
     (case stats_file st of
        None \<Rightarrow> Inr ScraperStats_default
      | Some Unreadable \<Rightarrow> Inl JSONDecodeError
      | Some (Content d) \<Rightarrow> Inr d)"

definition load_parcels_geojson :: "storage \<Rightarrow> py_exception + feature_collection" where
  "load_parcels_geojson st =
     (case parcels_file st of
        None \<Rightarrow> Inr \<lparr>collection_type = ''FeatureCollection'', features = []\<rparr>
      | Some Unreadable \<Rightarrow> Inl JSONDecodeError
      | Some (Content d) \<Rightarrow> Inr d)"

section \<open>main.py\<close>

text \<open>
  \<open>TownhallOrchestrator\<close>. The environment of a run collects the environments of the
  components, the two date bounds of the constructor, and
  \<open>download_petition_attachments\<close> (the list of saved paths; the method catches every
  exception itself). Opening the HTTP clients is taken to succeed.
\<close>

record orchestrator =
  scraper :: scraper_env
  extractor :: pin_env
  gis :: gis_env
  disk :: storage_env
  self_start_date :: "string option"
  self_end_date :: "string option"
  download_petition_attachments :: "string \<Rightarrow> string \<Rightarrow> path list"

definition scrape_meetings :: "orchestrator \<Rightarrow> py_exception + meeting list" where
  "scrape_meetings self = scrape_all (scraper self) True (self_start_date self) (self_end_date self)"

text \<open>
  The body of the petition loop of \<open>_process_petitions\<close>; the directory scanned is
  \<open>Path("data/pdfs/attachments") / petition.petition_number\<close>.
\<close>

definition process_petition :: "orchestrator \<Rightarrow> petition \<Rightarrow> petition" where
  "process_petition self p =
     (if \<not> given (petition_number p) \<or> \<not> given (legislation_url p) then p
      else
        let downloaded_files =
              download_petition_attachments self (the (petition_number p)) (the (legislation_url p))
        in if downloaded_files = [] then p
           else
             let found = extract_from_directory (extractor self) (init_patterns None)
                           (''data/pdfs/attachments/'' @ the (petition_number p))
             in if found \<noteq> [] then p\<lparr>pins := Some found\<rparr> else p)"

definition process_petitions :: "orchestrator \<Rightarrow> meeting list \<Rightarrow> meeting list" where
  "process_petitions self meetings =
     map (\<lambda>m. m\<lparr>petitions := map (process_petition self) (petitions m)\<rparr>) meetings"

text \<open>
  \<open>_fetch_parcel_geometry\<close> sets \<open>self._parcel_geojson\<close> on every path: to the result
  of the fetcher, or, when the fetcher raises, to an empty collection (the exception is
  logged and not raised again).
\<close>

definition fetch_parcel_geometry :: "orchestrator \<Rightarrow> meeting list \<Rightarrow> feature_collection" where
  "fetch_parcel_geometry self meetings =
     (case fetch_parcels_for_all_meetings (gis self) meetings of
        Inl e \<Rightarrow> \<lparr>collection_type = ''FeatureCollection'', features = []\<rparr>
      | Inr geojson \<Rightarrow> geojson)"

text \<open>
  \<open>_save_data\<close>: the four writes in the order of the source; an exception of one write
  leaves the \<open>try\<close> block and is raised again. \<open>parcel_geojson\<close> is \<open>None\<close> when the
  attribute \<open>_parcel_geojson\<close> is not set.
\<close>

definition save_data ::
  "orchestrator \<Rightarrow> storage \<Rightarrow> meeting list \<Rightarrow> feature_collection option
     \<Rightarrow> storage \<times> (py_exception + unit)" where
  "save_data self st meetings parcel_geojson =
     (case save_meetings (disk self) st meetings of
        (st1, Inl e) \<Rightarrow> (st1, Inl e)
      | (st1, Inr u1) \<Rightarrow>
     (case save_petitions (disk self) st1 meetings of
        (st2, Inl e) \<Rightarrow> (st2, Inl e)
      | (st2, Inr u2) \<Rightarrow>
     (case (case parcel_geojson of
              Some geojson \<Rightarrow> save_parcels_geojson (disk self) st2 geojson
            | None \<Rightarrow> (st2, Inr ())) of
        (st3, Inl e) \<Rightarrow> (st3, Inl e)
      | (st3, Inr u3) \<Rightarrow> save_stats (disk self) st3 meetings)))"

text \<open>\<open>_print_summary\<close> reads the statistics and the petitions back.\<close>

definition print_summary :: "storage \<Rightarrow> py_exception + unit" where
  "print_summary st =
     (case get_stats st of
        Inl e \<Rightarrow> Inl e
      | Inr stats \<Rightarrow> (case load_petitions st of Inl e \<Rightarrow> Inl e | Inr ps \<Rightarrow> Inr ()))"

text \<open>
  \<open>run\<close>: the storage after the run and the returned flag (\<open>True\<close> if successful,
  \<open>False\<close> otherwise). Every exception inside is caught and gives \<open>False\<close>.
\<close>

definition run :: "orchestrator \<Rightarrow> storage \<Rightarrow> storage \<times> bool" where
  "run self st =
     (case scrape_meetings self of
        Inl e \<Rightarrow> (st, False)
      | Inr meetings \<Rightarrow>
          if meetings = [] then (st, False)
          else
            let meetings1 = process_petitions self meetings;
                geojson = fetch_parcel_geometry self meetings1
            in (case save_data self st meetings1 (Some geojson) of
                  (st', Inl e) \<Rightarrow> (st', False)
                | (st', Inr u) \<Rightarrow>
                    (case print_summary st' of
                       Inl e \<Rightarrow> (st', False)
                     | Inr u' \<Rightarrow> (st', True))))"

section \<open>Notions used to state the properties\<close>

text \<open>
  For a text and a pattern: the strings \<open>re.findall\<close> returns, and whether the loop body
  of \<open>extract_from_pdf\<close> raises on that pattern (\<open>re.findall\<close> raises, or it returns a
  non-empty list of tuples). \<open>canonical_pins\<close> is the set of all matches of all patterns,
  each with its hyphens removed.
\<close>

definition pattern_matches :: "'a pin_env_scheme \<Rightarrow> string \<Rightarrow> string \<Rightarrow> string set" where
  "pattern_matches env txt p =
     (case re_findall env p txt of Inr (Strings ms) \<Rightarrow> set ms | _ \<Rightarrow> {})"

definition pattern_raises :: "'a pin_env_scheme \<Rightarrow> string \<Rightarrow> string \<Rightarrow> bool" where
  "pattern_raises env txt p =
     (case re_findall env p txt of
        Inl e \<Rightarrow> True
      | Inr (Tuples (m # ms)) \<Rightarrow> True
      | _ \<Rightarrow> False)"

definition canonical_pins :: "'a pin_env_scheme \<Rightarrow> string \<Rightarrow> string list \<Rightarrow> string set" where
  "canonical_pins env txt patterns = (\<Union>p\<in>set patterns. remove_hyphens ` pattern_matches env txt p)"

text \<open>
  Dates in ISO form: ten characters, digits except for the two hyphens. \<open>date_of\<close> reads
  year, month and day of such a string, \<open>date_le\<close> is the order of the calendar, and
  \<open>in_date_range\<close> says that a date lies between the bounds that are given, both
  inclusive.
\<close>

definition is_digit :: "char \<Rightarrow> bool" where
  "is_digit c \<longleftrightarrow> CHR ''0'' \<le> c \<and> c \<le> CHR ''9''"

definition digit_value :: "char \<Rightarrow> nat" where
  "digit_value c = of_char c - 48"

definition iso_date :: "string \<Rightarrow> bool" where
  "iso_date s \<longleftrightarrow>
     length s = 10 \<and> list_all (\<lambda>i. is_digit (s ! i)) [0, 1, 2, 3, 5, 6, 8, 9] \<and>
     s ! 4 = CHR ''-'' \<and> s ! 7 = CHR ''-''"

definition date_of :: "string \<Rightarrow> datetime" where
  "date_of s =
     (1000 * digit_value (s ! 0) + 100 * digit_value (s ! 1) + 10 * digit_value (s ! 2) + digit_value (s ! 3),
      10 * digit_value (s ! 5) + digit_value (s ! 6),
      10 * digit_value (s ! 8) + digit_value (s ! 9))"

fun date_le :: "datetime \<Rightarrow> datetime \<Rightarrow> bool" where
  "date_le (y, m, d) (y', m', d') = (y < y' \<or> y = y' \<and> (m < m' \<or> m = m' \<and> d \<le> d'))"


definition in_date_range :: "string option \<Rightarrow> string option \<Rightarrow> string \<Rightarrow> bool" where
  "in_date_range start_date end_date d \<longleftrightarrow>
     (case start_date of None \<Rightarrow> True | Some s \<Rightarrow> date_le (date_of s) (date_of d)) \<and>
     (case end_date of None \<Rightarrow> True | Some e \<Rightarrow> date_le (date_of d) (date_of e))"

text \<open>
  What one identifier contributes to the feature list of \<open>fetch_parcels_for_petitions\<close>:
  nothing when the lookup gives no parcel, and otherwise the parcel with the metadata of
  the petition and of the meeting written into its properties. \<open>lookup_raises\<close> says
  that the lookup gives a parcel whose \<open>properties\<close> value is not an object, so that the
  update of the properties raises; such a lookup contributes nothing either.
\<close>

definition resolve_pin ::
  "'a gis_env_scheme \<Rightarrow> 'b petition_scheme \<Rightarrow> string \<Rightarrow> string \<Rightarrow> string \<Rightarrow> feature list" where
  "resolve_pin env p mdate mtype pin =
     (case get_parcel_by_pid env pin of
        None \<Rightarrow> []
      | Some parcel \<Rightarrow>
          (case properties parcel of
             JObj d \<Rightarrow> [parcel\<lparr>properties := JObj (dict_update d (petition_metadata p mdate mtype))\<rparr>]
           | _ \<Rightarrow> []))"

definition object_properties :: "feature \<Rightarrow> bool" where
  "object_properties parcel = (case properties parcel of JObj d \<Rightarrow> True | _ \<Rightarrow> False)"

definition lookup_raises :: "'a gis_env_scheme \<Rightarrow> string \<Rightarrow> bool" where
  "lookup_raises env pin =
     (case get_parcel_by_pid env pin of
        None \<Rightarrow> False
      | Some parcel \<Rightarrow> \<not> object_properties parcel)"

section \<open>Example environments\<close>

text \<open>
  A directory \<open>docs\<close> with three PDF files: \<open>a.pdf\<close> has three pages (the second
  without text), \<open>b.pdf\<close> has one page, and \<open>c.pdf\<close> is corrupt (the library raises).
  Only pdfplumber is installed. The two example patterns match a dashed parcel number
  after \<open>NO.\<close> and an eight-digit number after \<open>PID #\<close>.
\<close>

definition demo_text_a :: string where
  "demo_text_a = ''\<newline>--- Page 1 ---\<newline>\<newline>REZONING PETITION 2025-142 SITE PLAN, 123 MAIN STREET, CHARLOTTE NC, TAX PARCEL NO. 123-053-10\<newline>\<newline>--- Page 3 ---\<newline>\<newline>PID #12517402''"

definition demo_text_b :: string where
  "demo_text_b = ''\<newline>--- Page 1 ---\<newline>\<newline>PID #09912345''"

definition demo_pdf_env :: pin_env where
  "demo_pdf_env =
     \<lparr>PDFPLUMBER_AVAILABLE = True, PYPDF2_AVAILABLE = False,
      path_exists = (\<lambda>p. p \<in> set [''docs'', ''docs/a.pdf'', ''docs/b.pdf'', ''docs/c.pdf'']),
      st_size = (\<lambda>p. 2048),
      path_name = (\<lambda>p. drop 5 p),
      pdfplumber_pages = (\<lambda>p.
         if p = ''docs/a.pdf''
         then Inr [''REZONING PETITION 2025-142 SITE PLAN, 123 MAIN STREET, CHARLOTTE NC, TAX PARCEL NO. 123-053-10'',
                   [], ''PID #12517402'']
         else if p = ''docs/b.pdf'' then Inr [''PID #09912345'']
         else Inl BackendFailure),
      pypdf2_pages = (\<lambda>p. Inl BackendFailure),
      pypdf2_metadata = (\<lambda>p. Inl BackendFailure),
      re_findall = (\<lambda>pattern txt.
         if pattern = ''NO. ([0-9-]+)'' \<and> txt = demo_text_a then Inr (Strings [''123-053-10''])
         else if pattern = ''PID #([0-9]{8})'' \<and> txt = demo_text_a then Inr (Strings [''12517402''])
         else if pattern = ''PID #([0-9]{8})'' \<and> txt = demo_text_b then Inr (Strings [''09912345'', ''09912345''])
         else Inr (Strings [])),
      glob_pdf = (\<lambda>d. if d = ''docs'' then Inr [''docs/c.pdf'', ''docs/a.pdf'', ''docs/b.pdf''] else Inr [])\<rparr>"

definition demo_patterns :: "string list" where
  "demo_patterns = [''NO. ([0-9-]+)'', ''PID #([0-9]{8})'']"

text \<open>
  The same directory when both libraries are installed (PyPDF2 reads \<open>b.pdf\<close> and
  raises on the other files), and when only PyPDF2 is installed.
\<close>

definition demo_both_env :: pin_env where
  "demo_both_env =
     demo_pdf_env\<lparr>PYPDF2_AVAILABLE := True,
                  pypdf2_pages := (\<lambda>p. if p = ''docs/b.pdf'' then Inr [''PID #09912345 (second reader)'']
                                        else Inl BackendFailure)\<rparr>"

definition demo_pypdf2_env :: pin_env where
  "demo_pypdf2_env = demo_both_env\<lparr>PDFPLUMBER_AVAILABLE := False\<rparr>"

text \<open>Six meetings of January 2026, not in date order.\<close>

definition demo_meeting :: "string \<Rightarrow> string \<Rightarrow> meeting" where
  "demo_meeting mtype mdate =
     \<lparr>meeting_type = mtype, meeting_date = mdate, meeting_time = Some ''5:00 PM'',
      location = Some ''Council Chamber'',
      meeting_details_url = ''https://charlottenc.legistar.com/MeetingDetail.aspx?ID=1'',
      agenda_url = None, petitions = []\<rparr>"

definition january_meetings :: "meeting list" where
  "january_meetings =
     [demo_meeting ''Zoning Meeting'' ''2026-01-25'',
      demo_meeting ''City Council'' ''2026-01-10'',
      demo_meeting ''Zoning Meeting'' ''2026-01-09'',
      demo_meeting ''Zoning Meeting'' ''2026-01-20'',
      demo_meeting ''Planning Committee'' ''2026-01-15'',
      demo_meeting ''Zoning Meeting'' ''2026-01-21'']"

text \<open>
  A calendar page of three rows: a row whose date does not parse, a complete row of seven
  cells, and the same row cut to its first five cells. The example \<open>strptime\<close> knows one
  date per format; the example \<open>strftime\<close> prints year, month and day with two-digit
  month and day. The agenda of every meeting holds one petition.
\<close>

definition demo_petition :: petition where
  "demo_petition =
     \<lparr>file_number = ''15-25343'', petition_number = Some ''2025-142'',
      location = Some ''123 Main St'', address = None,
      current_zoning = Some ''R-3'', proposed_zoning = Some ''UR-2'',
      petitioner = Some ''Pappas Properties'', status = Some ''Approved'',
      action = None, vote_result = None,
      legislation_url = Some ''https://charlottenc.legistar.com/LegislationDetail.aspx?ID=5'',
      pins = None\<rparr>"

definition pad2 :: "nat \<Rightarrow> string" where
  "pad2 n = (if n < 10 then ''0'' @ str_nat n else str_nat n)"

definition demo_link :: "string \<Rightarrow> string \<Rightarrow> cell" where
  "demo_link label url = \<lparr>cell_text = label, cell_a = Some \<lparr>anchor_text = label, href = Some url\<rparr>, cell_span = None\<rparr>"

definition demo_text_cell :: "string \<Rightarrow> cell" where
  "demo_text_cell t = \<lparr>cell_text = t, cell_a = None, cell_span = None\<rparr>"

definition good_row :: row where
  "good_row =
     [demo_link ''Zoning Meeting'' ''DepartmentDetail.aspx?ID=1'',
      demo_text_cell ''01/20/2026'',
      demo_text_cell '''',
      \<lparr>cell_text = ''5:00 PM'', cell_a = None, cell_span = Some ''5:00 PM''\<rparr>,
      demo_text_cell ''Council Chamber'',
      demo_link ''Meeting details'' ''/MeetingDetail.aspx?ID=77'',
      demo_link ''Agenda'' ''#'']"

definition five_cell_row :: row where
  "five_cell_row = take 5 good_row"

definition bad_date_row :: row where
  "bad_date_row = good_row[1 := demo_text_cell ''TBD'']"

definition demo_scraper_env :: scraper_env where
  "demo_scraper_env =
     \<lparr>base_url = ''https://charlottenc.legistar.com'',
      strptime = (\<lambda>date_str fmt.
         if fmt = ''%m/%d/%Y'' \<and> date_str = ''01/20/2026'' then Some (2026, 1, 20)
         else if fmt = ''%Y-%m-%d'' \<and> date_str = ''2026-01-15'' then Some (2026, 1, 15)
         else if fmt = ''%B %d, %Y'' \<and> date_str = ''January 9, 2026'' then Some (2026, 1, 9)
         else None),
      strftime = (\<lambda>(y, m, d) fmt. str_nat y @ ''-'' @ pad2 m @ ''-'' @ pad2 d),
      calendar_page = Inr [bad_date_row, good_row, five_cell_row],
      meeting_details = (\<lambda>m. Inr (m\<lparr>petitions := [demo_petition]\<rparr>))\<rparr>"

definition good_meeting :: meeting where
  "good_meeting =
     \<lparr>meeting_type = ''Zoning Meeting'', meeting_date = ''2026-01-20'',
      meeting_time = Some ''5:00 PM'', location = Some ''Council Chamber'',
      meeting_details_url = ''https://charlottenc.legistar.com/MeetingDetail.aspx?ID=77'',
      agenda_url = None, petitions = []\<rparr>"

text \<open>
  Runs of the orchestrator: the example calendar with a GIS service that knows one parcel
  and a disk on which every write succeeds; the same with an empty calendar page; the
  same with a disk on which the write of the parcel file raises after the file has been
  opened (\<open>failing_orchestrator\<close>), or before (\<open>locked_orchestrator\<close>). No attachment
  is downloaded in these runs.
\<close>

definition empty_storage :: storage where
  "empty_storage = \<lparr>meetings_file = None, petitions_file = None, stats_file = None, parcels_file = None\<rparr>"

definition demo_gis_env :: gis_env where
  "demo_gis_env =
     \<lparr>gis_query = (\<lambda>pid.
         if pid = ''22310197''
         then Inr [\<lparr>geometry = JObj [(''type'', JStr ''Polygon'')],
                    properties = JObj [(''PID'', JStr ''22310197''), (''status'', JStr ''ACTIVE'')]\<rparr>]
         else if pid = ''00000000'' then Inr []
         else Inl HTTPError)\<rparr>"

definition demo_disk :: storage_env where
  "demo_disk = \<lparr>now = ''2026-01-21T09:00:00'', write_result = (\<lambda>a. Written)\<rparr>"

definition demo_orchestrator :: orchestrator where
  "demo_orchestrator =
     \<lparr>scraper = demo_scraper_env,
      extractor = demo_pdf_env,
      gis = demo_gis_env,
      disk = demo_disk,
      self_start_date = None,
      self_end_date = None,
      download_petition_attachments = (\<lambda>petition_number legislation_url. [])\<rparr>"

definition quiet_orchestrator :: orchestrator where
  "quiet_orchestrator =
     demo_orchestrator\<lparr>scraper := demo_scraper_env\<lparr>calendar_page := Inr []\<rparr>\<rparr>"

definition failing_orchestrator :: orchestrator where
  "failing_orchestrator =
     demo_orchestrator\<lparr>disk := demo_disk\<lparr>write_result :=
       (\<lambda>a. if a = ParcelsFile then Truncated OSError else Written)\<rparr>\<rparr>"

definition locked_orchestrator :: orchestrator where
  "locked_orchestrator =
     demo_orchestrator\<lparr>disk := demo_disk\<lparr>write_result :=
       (\<lambda>a. if a = ParcelsFile then NotOpened OSError else Written)\<rparr>\<rparr>"

definition detailed_meeting :: meeting where
  "detailed_meeting = good_meeting\<lparr>petitions := [demo_petition]\<rparr>"

text \<open>
  The parcel the example GIS service knows, and the example petition with three
  identifiers (one unknown to the service, one known, one on which the request fails),
  with and without a petition number. \<open>null_gis_env\<close> is a service that knows a second
  parcel, \<open>11111111\<close>, and answers for it with a feature whose \<open>properties\<close> are \<open>null\<close>;
  \<open>petition_with_null\<close> asks for that parcel first.
\<close>

definition demo_parcel :: feature where
  "demo_parcel =
     \<lparr>geometry = JObj [(''type'', JStr ''Polygon'')],
      properties = JObj [(''PID'', JStr ''22310197''), (''status'', JStr ''ACTIVE'')]\<rparr>"

definition null_gis_env :: gis_env where
  "null_gis_env =
     \<lparr>gis_query = (\<lambda>pid.
         if pid = ''11111111''
         then Inr [\<lparr>geometry = JObj [(''type'', JStr ''Polygon'')], properties = JNull\<rparr>]
         else gis_query demo_gis_env pid)\<rparr>"

definition petition_with_null :: petition where
  "petition_with_null = demo_petition\<lparr>pins := Some [''11111111'', ''22310197'']\<rparr>"

definition petition_with_pins :: petition where
  "petition_with_pins = demo_petition\<lparr>pins := Some [''00000000'', ''22310197'', ''99999999'']\<rparr>"

definition unnumbered_petition :: petition where
  "unnumbered_petition = demo_petition\<lparr>petition_number := None, pins := Some [''00000000'', ''22310197'', ''99999999'']\<rparr>"

section \<open>Properties of the identifier extractor\<close>

lemma search_patterns_ok:
  "\<forall>p\<in>set ps. \<not> pattern_raises env txt p \<Longrightarrow>
   search_patterns env txt ps acc = Inr (acc \<union> canonical_pins env txt ps)"
proof (induction ps arbitrary: acc)
  case Nil
  then show ?case by (simp add: canonical_pins_def)
next
  case (Cons p ps)
  then show ?case
    by (auto simp: canonical_pins_def pattern_raises_def pattern_matches_def
             split: sum.splits re_matches.splits list.splits)
qed

lemma search_patterns_raises:
  "\<exists>p\<in>set ps. pattern_raises env txt p \<Longrightarrow> isl (search_patterns env txt ps acc)"
proof (induction ps arbitrary: acc)
  case Nil
  then show ?case by simp
next
  case (Cons p ps)
  show ?case
  proof (cases "pattern_raises env txt p")
    case True
    then show ?thesis
      by (simp add: pattern_raises_def split: sum.splits re_matches.splits list.splits)
  next
    case False
    with Cons.prems have "\<exists>q\<in>set ps. pattern_raises env txt q" by simp
    then have "\<And>acc'. isl (search_patterns env txt ps acc')" by (rule Cons.IH)
    then show ?thesis
      by (simp split: sum.splits re_matches.splits list.splits)
  qed
qed

lemma finite_canonical_pins: "finite (canonical_pins env txt ps)"
  by (auto simp: canonical_pins_def pattern_matches_def split: sum.splits re_matches.splits)

text \<open>What the pattern loop and the final sort give for a text.\<close>

lemma search_then_sort:
  "(case search_patterns env txt ps {} of Inl e \<Rightarrow> [] | Inr found \<Rightarrow> sorted_list_of_set found) =
   (if \<exists>p\<in>set ps. pattern_raises env txt p then []
    else sorted_list_of_set (canonical_pins env txt ps))"
proof (cases "\<exists>p\<in>set ps. pattern_raises env txt p")
  case True
  then have "isl (search_patterns env txt ps {})" by (rule search_patterns_raises)
  with True show ?thesis by (auto split: sum.splits)
next
  case False
  then have "search_patterns env txt ps {} = Inr ({} \<union> canonical_pins env txt ps)"
    by (intro search_patterns_ok) simp
  with False show ?thesis by simp
qed

lemma parse_pdf_missing: "\<not> path_exists env p \<Longrightarrow> parse_pdf env p = Inl FileNotFoundError"
  by (simp add: parse_pdf_def)

lemma extract_from_pdf_eq:
  "extract_from_pdf env ps pdf_path =
     (case parse_pdf env pdf_path of
        Inl e \<Rightarrow> []
      | Inr (r, calls) \<Rightarrow>
          if text_content r = [] \<or> (\<exists>p\<in>set ps. pattern_raises env (text_content r) p) then []
          else sorted_list_of_set (canonical_pins env (text_content r) ps))"
proof (cases "path_exists env pdf_path")
  case False
  then show ?thesis by (simp add: extract_from_pdf_def parse_pdf_missing)
next
  case True
  then show ?thesis
    unfolding extract_from_pdf_def
    by (simp add: search_then_sort split: sum.splits prod.splits)
qed

lemma remove_hyphens_free: "CHR ''-'' \<notin> set (remove_hyphens m)"
  by (simp add: remove_hyphens_def)

lemma remove_hyphens_id: "CHR ''-'' \<notin> set m \<Longrightarrow> remove_hyphens m = m"
  by (induction m) (auto simp: remove_hyphens_def)

lemma extract_from_pdf_cong:
  "set ps' = set ps \<Longrightarrow> extract_from_pdf env ps' pdf_path = extract_from_pdf env ps pdf_path"
  by (auto simp: extract_from_pdf_eq canonical_pins_def split: sum.splits prod.splits)

lemma extract_sorted_distinct: "sorted (extract_from_pdf env ps pdf_path) \<and> distinct (extract_from_pdf env ps pdf_path)"
  by (simp add: extract_from_pdf_eq split: sum.splits prod.splits)

lemma extract_from_pdf_set:
  assumes "parse_pdf env pdf_path = Inr (r, calls)"
  shows "set (extract_from_pdf env ps pdf_path) =
           (if text_content r = [] \<or> (\<exists>p\<in>set ps. pattern_raises env (text_content r) p) then {}
            else canonical_pins env (text_content r) ps)"
  using assms by (simp add: extract_from_pdf_eq finite_canonical_pins)

lemma extract_from_pdf_members:
  assumes "pin \<in> set (extract_from_pdf env ps pdf_path)"
  shows "\<exists>r calls p m. parse_pdf env pdf_path = Inr (r, calls) \<and> p \<in> set ps \<and>
           m \<in> pattern_matches env (text_content r) p \<and> pin = remove_hyphens m"
proof (cases "parse_pdf env pdf_path")
  case (Inl e)
  with assms show ?thesis by (simp add: extract_from_pdf_eq)
next
  case (Inr rc)
  obtain r calls where rc: "rc = (r, calls)" by (cases rc)
  from assms Inr rc have "pin \<in> canonical_pins env (text_content r) ps"
    by (simp add: extract_from_pdf_set split: if_splits)
  then obtain p m where "p \<in> set ps" "m \<in> pattern_matches env (text_content r) p" "pin = remove_hyphens m"
    by (auto simp: canonical_pins_def)
  with Inr rc show ?thesis by blast
qed

lemma demo_parse_a: "parse_pdf demo_pdf_env ''docs/a.pdf'' =
   Inr (\<lparr>text_content = demo_text_a, page_count = 3, size_kb = 2, metadata = [(''filename'', ''a.pdf'')]\<rparr>, [Pdfplumber])"
  by (simp add: parse_pdf_def primary_def demo_pdf_env_def parse_with_pdfplumber_def
        extract_metadata_def str_nat.simps digit_char_def demo_text_a_def)

lemma demo_parse_b: "parse_pdf demo_pdf_env ''docs/b.pdf'' =
   Inr (\<lparr>text_content = demo_text_b, page_count = 1, size_kb = 2, metadata = [(''filename'', ''b.pdf'')]\<rparr>, [Pdfplumber])"
  by (simp add: parse_pdf_def primary_def demo_pdf_env_def parse_with_pdfplumber_def
        extract_metadata_def str_nat.simps digit_char_def demo_text_b_def)

lemma demo_parse_c: "parse_pdf demo_pdf_env ''docs/c.pdf'' =
   Inr (\<lparr>text_content = [], page_count = 0, size_kb = 2, metadata = [(''filename'', ''c.pdf'')]\<rparr>, [Pdfplumber])"
  by (simp add: parse_pdf_def primary_def demo_pdf_env_def parse_with_pdfplumber_def
        extract_metadata_def)

lemma demo_pins_a: "canonical_pins demo_pdf_env demo_text_a demo_patterns = set [''12305310'', ''12517402'']"
  by (auto simp: canonical_pins_def demo_patterns_def pattern_matches_def demo_pdf_env_def
        remove_hyphens_def demo_text_a_def demo_text_b_def)

lemma demo_pins_b: "canonical_pins demo_pdf_env demo_text_b demo_patterns = set [''09912345'']"
  by (auto simp: canonical_pins_def demo_patterns_def pattern_matches_def demo_pdf_env_def
        remove_hyphens_def demo_text_a_def demo_text_b_def)

lemma demo_no_raise: "\<not> pattern_raises demo_pdf_env txt p"
  by (simp add: pattern_raises_def demo_pdf_env_def)

lemma demo_extract_a: "extract_from_pdf demo_pdf_env demo_patterns ''docs/a.pdf'' = [''12305310'', ''12517402'']"
  by (simp add: extract_from_pdf_eq demo_parse_a demo_pins_a demo_no_raise sorted_list_of_set_sort_remdups del: set_simps)
     (simp add: demo_text_a_def)

lemma demo_extract_b: "extract_from_pdf demo_pdf_env demo_patterns ''docs/b.pdf'' = [''09912345'']"
  by (simp add: extract_from_pdf_eq demo_parse_b demo_pins_b demo_no_raise sorted_list_of_set_sort_remdups del: set_simps)
     (simp add: demo_text_b_def)

lemma demo_extract_c: "extract_from_pdf demo_pdf_env demo_patterns ''docs/c.pdf'' = []"
  by (simp add: extract_from_pdf_eq demo_parse_c)

lemma demo_extract_missing: "extract_from_pdf demo_pdf_env demo_patterns ''missing.pdf'' = []"
  by (simp add: extract_from_pdf_def demo_pdf_env_def)

text \<open>
  Claim C1. For every text source, every list of patterns and every path, the list
  \<open>extract_from_pdf\<close> returns is sorted in the lexicographic order of strings and has no
  duplicates; each of its elements is free of hyphens and is a string matched by one of the
  patterns in the text of the document, with the hyphens removed; when the document parses
  to a non-empty text and no pattern raises, the list holds exactly these strings; a match
  without hyphens is passed through unchanged; and two pattern lists with the same
  elements (in particular a list and any reordering of it) give the same result.
\<close>

theorem extract_from_pdf_sorted_canonical:
  "sorted (extract_from_pdf env patterns pdf_path)
   \<and> distinct (extract_from_pdf env patterns pdf_path)
   \<and> (\<forall>pin \<in> set (extract_from_pdf env patterns pdf_path).
         CHR ''-'' \<notin> set pin \<and>
         (\<exists>r calls p m. parse_pdf env pdf_path = Inr (r, calls) \<and> p \<in> set patterns \<and>
            m \<in> pattern_matches env (text_content r) p \<and> pin = remove_hyphens m))
   \<and> (\<forall>r calls. parse_pdf env pdf_path = Inr (r, calls) \<and> text_content r \<noteq> [] \<and>
         (\<forall>p\<in>set patterns. \<not> pattern_raises env (text_content r) p) \<longrightarrow>
         set (extract_from_pdf env patterns pdf_path) =
           (\<Union>p\<in>set patterns. remove_hyphens ` pattern_matches env (text_content r) p))
   \<and> (\<forall>m. CHR ''-'' \<notin> set m \<longrightarrow> remove_hyphens m = m)
   \<and> (\<forall>patterns'. set patterns' = set patterns \<longrightarrow>
         extract_from_pdf env patterns' pdf_path = extract_from_pdf env patterns pdf_path)"
proof (intro conjI)
  show "sorted (extract_from_pdf env patterns pdf_path)"
    by (simp add: extract_sorted_distinct)
  show "distinct (extract_from_pdf env patterns pdf_path)"
    by (simp add: extract_sorted_distinct)
  show "\<forall>pin \<in> set (extract_from_pdf env patterns pdf_path).
         CHR ''-'' \<notin> set pin \<and>
         (\<exists>r calls p m. parse_pdf env pdf_path = Inr (r, calls) \<and> p \<in> set patterns \<and>
            m \<in> pattern_matches env (text_content r) p \<and> pin = remove_hyphens m)"
  proof
    fix pin assume "pin \<in> set (extract_from_pdf env patterns pdf_path)"
    then have ex: "\<exists>r calls p m. parse_pdf env pdf_path = Inr (r, calls) \<and> p \<in> set patterns \<and>
            m \<in> pattern_matches env (text_content r) p \<and> pin = remove_hyphens m"
      by (rule extract_from_pdf_members)
    then have "CHR ''-'' \<notin> set pin" by (auto simp: remove_hyphens_free)
    with ex show "CHR ''-'' \<notin> set pin \<and>
         (\<exists>r calls p m. parse_pdf env pdf_path = Inr (r, calls) \<and> p \<in> set patterns \<and>
            m \<in> pattern_matches env (text_content r) p \<and> pin = remove_hyphens m)" by simp
  qed
  show "\<forall>r calls. parse_pdf env pdf_path = Inr (r, calls) \<and> text_content r \<noteq> [] \<and>
         (\<forall>p\<in>set patterns. \<not> pattern_raises env (text_content r) p) \<longrightarrow>
         set (extract_from_pdf env patterns pdf_path) =
           (\<Union>p\<in>set patterns. remove_hyphens ` pattern_matches env (text_content r) p)"
    by (auto simp: extract_from_pdf_set canonical_pins_def)
  show "\<forall>m. CHR ''-'' \<notin> set m \<longrightarrow> remove_hyphens m = m"
    by (simp add: remove_hyphens_id)
  show "\<forall>patterns'. set patterns' = set patterns \<longrightarrow>
         extract_from_pdf env patterns' pdf_path = extract_from_pdf env patterns pdf_path"
    by (blast intro: extract_from_pdf_cong)
qed

text \<open>
  The example document \<open>docs/a.pdf\<close>: the dashed match \<open>123-053-10\<close> becomes
  \<open>12305310\<close>, and both orders of the two patterns give the same sorted list.
\<close>

theorem extract_from_pdf_sorted_canonical_witness:
  "extract_from_pdf demo_pdf_env [''NO. ([0-9-]+)'', ''PID #([0-9]{8})''] ''docs/a.pdf'' = [''12305310'', ''12517402'']
   \<and> set [''PID #([0-9]{8})'', ''NO. ([0-9-]+)''] = set [''NO. ([0-9-]+)'', ''PID #([0-9]{8})'']
   \<and> extract_from_pdf demo_pdf_env [''PID #([0-9]{8})'', ''NO. ([0-9-]+)''] ''docs/a.pdf'' = [''12305310'', ''12517402'']
   \<and> ''123-053-10'' \<in> pattern_matches demo_pdf_env demo_text_a ''NO. ([0-9-]+)''
   \<and> remove_hyphens ''123-053-10'' = ''12305310''
   \<and> CHR ''-'' \<notin> set ''12305310'' \<and> remove_hyphens ''12305310'' = ''12305310''"
proof -
  have a: "extract_from_pdf demo_pdf_env [''NO. ([0-9-]+)'', ''PID #([0-9]{8})''] ''docs/a.pdf'' = [''12305310'', ''12517402'']"
    using demo_extract_a by (simp add: demo_patterns_def)
  have s: "set [''PID #([0-9]{8})'', ''NO. ([0-9-]+)''] = set [''NO. ([0-9-]+)'', ''PID #([0-9]{8})'']"
    by auto
  have m: "''123-053-10'' \<in> pattern_matches demo_pdf_env demo_text_a ''NO. ([0-9-]+)''"
    by (simp add: pattern_matches_def demo_pdf_env_def)
  have h: "CHR ''-'' \<notin> set ''12305310''" by simp
  note inst = extract_from_pdf_sorted_canonical
    [of demo_pdf_env "[''NO. ([0-9-]+)'', ''PID #([0-9]{8})'']" "''docs/a.pdf''"]
  from inst have "\<forall>m. CHR ''-'' \<notin> set m \<longrightarrow> remove_hyphens m = m" by blast
  with h have i: "remove_hyphens ''12305310'' = ''12305310''" by blast
  from inst have "\<forall>patterns'. set patterns' = set [''NO. ([0-9-]+)'', ''PID #([0-9]{8})''] \<longrightarrow>
         extract_from_pdf demo_pdf_env patterns' ''docs/a.pdf'' =
         extract_from_pdf demo_pdf_env [''NO. ([0-9-]+)'', ''PID #([0-9]{8})''] ''docs/a.pdf''"
    by blast
  with s have "extract_from_pdf demo_pdf_env [''PID #([0-9]{8})'', ''NO. ([0-9-]+)''] ''docs/a.pdf'' =
         extract_from_pdf demo_pdf_env [''NO. ([0-9-]+)'', ''PID #([0-9]{8})''] ''docs/a.pdf''"
    by blast
  with a have b: "extract_from_pdf demo_pdf_env [''PID #([0-9]{8})'', ''NO. ([0-9-]+)''] ''docs/a.pdf'' = [''12305310'', ''12517402'']"
    by simp
  have r: "remove_hyphens ''123-053-10'' = ''12305310''" by (simp add: remove_hyphens_def)
  from a s b m r h i show ?thesis by blast
qed

section \<open>Properties of extraction over a collection\<close>

lemma collect_pins_fold:
  "fold (\<lambda>pdf_path all_pins. all_pins \<union> set (extract_from_pdf env ps pdf_path)) paths acc =
     acc \<union> (\<Union>p\<in>set paths. set (extract_from_pdf env ps p))"
  by (induction paths arbitrary: acc) auto

lemma collect_pins_eq:
  "collect_pins env ps paths = (\<Union>p\<in>set paths. set (extract_from_pdf env ps p))"
  by (simp add: collect_pins_def collect_pins_fold)

lemma parse_pdf_last_backend:
  assumes "parse_pdf env p = Inr (r, calls)" and "backend_raises env (last calls) p"
  shows "text_content r = []"
  using assms
  by (auto simp: parse_pdf_def primary_def parse_with_pdfplumber_def parse_with_pypdf2_def
        backend_raises_def isl_def split: if_splits sum.splits prod.splits)

lemma fails_to_parse_no_pins:
  assumes "fails_to_parse env p"
  shows "extract_from_pdf env ps p = []"
proof (cases "parse_pdf env p")
  case (Inl e)
  then show ?thesis by (simp add: extract_from_pdf_eq)
next
  case (Inr rc)
  obtain r calls where rc: "rc = (r, calls)" by (cases rc)
  from Inr rc have ex: "path_exists env p" by (auto simp: parse_pdf_def split: if_splits)
  with assms Inr rc have "backend_raises env (last calls) p"
    by (simp add: fails_to_parse_def)
  with Inr rc have "text_content r = []" by (auto dest: parse_pdf_last_backend)
  with Inr rc show ?thesis by (simp add: extract_from_pdf_eq)
qed

lemma union_skip_failures:
  "(\<Union>p\<in>set paths. set (extract_from_pdf env ps p)) =
   (\<Union>p\<in>{p \<in> set paths. \<not> fails_to_parse env p}. set (extract_from_pdf env ps p))"
  by (auto simp: fails_to_parse_no_pins)

text \<open>
  Claim C2. Extraction over a collection never raises (both functions return a list on
  every path, every exception being caught). A document that fails to parse (missing
  file, exception of \<open>parse_pdf\<close>, or a library exception on corrupt content) contributes
  no identifier, and \<open>extract_batch\<close> returns the sorted, duplicate-free list of the
  union of the identifiers of the documents that do not fail; so does
  \<open>extract_from_directory\<close> for a directory that exists and can be listed, and it returns
  the empty list otherwise.
\<close>

theorem extraction_contains_failures:
  "(fails_to_parse env p \<longrightarrow> extract_from_pdf env patterns p = [])
   \<and> sorted (extract_batch env patterns paths) \<and> distinct (extract_batch env patterns paths)
   \<and> set (extract_batch env patterns paths) =
       (\<Union>p\<in>{p \<in> set paths. \<not> fails_to_parse env p}. set (extract_from_pdf env patterns p))
   \<and> extract_batch env patterns paths =
       sorted_list_of_set (\<Union>p\<in>{p \<in> set paths. \<not> fails_to_parse env p}. set (extract_from_pdf env patterns p))
   \<and> (path_exists env d \<and> glob_pdf env d = Inr files \<longrightarrow>
        extract_from_directory env patterns d =
          sorted_list_of_set (\<Union>p\<in>{p \<in> set files. \<not> fails_to_parse env p}. set (extract_from_pdf env patterns p)))
   \<and> (\<not> path_exists env d \<or> isl (glob_pdf env d) \<longrightarrow> extract_from_directory env patterns d = [])"
proof (intro conjI)
  show "fails_to_parse env p \<longrightarrow> extract_from_pdf env patterns p = []"
    by (simp add: fails_to_parse_no_pins)
  show "extract_batch env patterns paths =
       sorted_list_of_set (\<Union>p\<in>{p \<in> set paths. \<not> fails_to_parse env p}. set (extract_from_pdf env patterns p))"
    by (simp only: extract_batch_def collect_pins_eq union_skip_failures)
  show "sorted (extract_batch env patterns paths)"
    by (simp add: extract_batch_def)
  show "distinct (extract_batch env patterns paths)"
    by (simp add: extract_batch_def)
  have "finite (collect_pins env patterns paths)"
    by (simp add: collect_pins_eq)
  then have "set (extract_batch env patterns paths) = collect_pins env patterns paths"
    by (simp add: extract_batch_def)
  then show "set (extract_batch env patterns paths) =
       (\<Union>p\<in>{p \<in> set paths. \<not> fails_to_parse env p}. set (extract_from_pdf env patterns p))"
    by (simp only: collect_pins_eq union_skip_failures)
  show "path_exists env d \<and> glob_pdf env d = Inr files \<longrightarrow>
        extract_from_directory env patterns d =
          sorted_list_of_set (\<Union>p\<in>{p \<in> set files. \<not> fails_to_parse env p}. set (extract_from_pdf env patterns p))"
  proof
    assume a: "path_exists env d \<and> glob_pdf env d = Inr files"
    have "extract_from_directory env patterns d =
            sorted_list_of_set (\<Union>p\<in>set files. set (extract_from_pdf env patterns p))"
      using a by (cases files) (simp_all add: extract_from_directory_def collect_pins_eq)
    then show "extract_from_directory env patterns d =
          sorted_list_of_set (\<Union>p\<in>{p \<in> set files. \<not> fails_to_parse env p}. set (extract_from_pdf env patterns p))"
      by (simp only: union_skip_failures)
  qed
  show "\<not> path_exists env d \<or> isl (glob_pdf env d) \<longrightarrow> extract_from_directory env patterns d = []"
    by (auto simp: extract_from_directory_def isl_def)
qed

lemma demo_fails_c: "fails_to_parse demo_pdf_env ''docs/c.pdf''"
  by (simp add: fails_to_parse_def demo_parse_c backend_raises_def) (simp add: demo_pdf_env_def)

lemma demo_fails_missing: "fails_to_parse demo_pdf_env ''missing.pdf''"
  by (simp add: fails_to_parse_def demo_pdf_env_def)

lemma demo_collect: "collect_pins demo_pdf_env demo_patterns [''docs/c.pdf'', ''docs/a.pdf'', ''docs/b.pdf''] =
    set [''12305310'', ''12517402'', ''09912345'']"
  by (auto simp: collect_pins_def demo_extract_a demo_extract_b demo_extract_c)

lemma demo_collect_batch: "collect_pins demo_pdf_env demo_patterns [''docs/a.pdf'', ''missing.pdf'', ''docs/b.pdf''] =
    set [''12305310'', ''12517402'', ''09912345'']"
  by (auto simp: collect_pins_def demo_extract_a demo_extract_b demo_extract_missing)

lemma demo_directory: "extract_from_directory demo_pdf_env demo_patterns ''docs'' = [''09912345'', ''12305310'', ''12517402'']"
proof -
  have "extract_from_directory demo_pdf_env demo_patterns ''docs'' =
        sorted_list_of_set (collect_pins demo_pdf_env demo_patterns [''docs/c.pdf'', ''docs/a.pdf'', ''docs/b.pdf''])"
    by (simp add: extract_from_directory_def demo_pdf_env_def)
  also have "\<dots> = sort (remdups [''12305310'', ''12517402'', ''09912345''])"
    by (simp only: demo_collect sorted_list_of_set_sort_remdups)
  also have "\<dots> = [''09912345'', ''12305310'', ''12517402'']" by simp
  finally show ?thesis .
qed

lemma demo_batch: "extract_batch demo_pdf_env demo_patterns [''docs/a.pdf'', ''missing.pdf'', ''docs/b.pdf''] = [''09912345'', ''12305310'', ''12517402'']"
proof -
  have "extract_batch demo_pdf_env demo_patterns [''docs/a.pdf'', ''missing.pdf'', ''docs/b.pdf''] =
        sort (remdups [''12305310'', ''12517402'', ''09912345''])"
    by (simp only: extract_batch_def demo_collect_batch sorted_list_of_set_sort_remdups)
  also have "\<dots> = [''09912345'', ''12305310'', ''12517402'']" by simp
  finally show ?thesis .
qed

text \<open>
  The example directory: the corrupt \<open>c.pdf\<close> and a missing file contribute nothing, and
  the result is the sorted union of the identifiers of \<open>a.pdf\<close> and \<open>b.pdf\<close>.
\<close>

theorem extraction_contains_failures_witness:
  "fails_to_parse demo_pdf_env ''docs/c.pdf''
   \<and> extract_from_pdf demo_pdf_env demo_patterns ''docs/c.pdf'' = []
   \<and> fails_to_parse demo_pdf_env ''missing.pdf''
   \<and> extract_batch demo_pdf_env demo_patterns [''docs/a.pdf'', ''missing.pdf'', ''docs/b.pdf'']
       = [''09912345'', ''12305310'', ''12517402'']
   \<and> path_exists demo_pdf_env ''docs''
   \<and> glob_pdf demo_pdf_env ''docs'' = Inr [''docs/c.pdf'', ''docs/a.pdf'', ''docs/b.pdf'']
   \<and> extract_from_directory demo_pdf_env demo_patterns ''docs'' = [''09912345'', ''12305310'', ''12517402'']
   \<and> \<not> path_exists demo_pdf_env ''nowhere''
   \<and> extract_from_directory demo_pdf_env demo_patterns ''nowhere'' = []"
proof -
  note inst = extraction_contains_failures
    [of demo_pdf_env "''docs/c.pdf''" demo_patterns "[''docs/a.pdf'', ''missing.pdf'', ''docs/b.pdf'']"
        "''nowhere''" "[]"]
  have n: "\<not> path_exists demo_pdf_env ''nowhere''" by (simp add: demo_pdf_env_def)
  from inst demo_fails_c have c: "extract_from_pdf demo_pdf_env demo_patterns ''docs/c.pdf'' = []"
    by blast
  from inst n have d: "extract_from_directory demo_pdf_env demo_patterns ''nowhere'' = []"
    by blast
  have e: "path_exists demo_pdf_env ''docs''" by (simp add: demo_pdf_env_def)
  have g: "glob_pdf demo_pdf_env ''docs'' = Inr [''docs/c.pdf'', ''docs/a.pdf'', ''docs/b.pdf'']"
    by (simp add: demo_pdf_env_def)
  from demo_fails_c c demo_fails_missing demo_batch e g demo_directory n d show ?thesis by blast
qed


section \<open>Properties of the document text source\<close>

lemma parse_pdf_not_found_iff:
  "parse_pdf env p = Inl FileNotFoundError \<longleftrightarrow> \<not> path_exists env p"
  by (auto simp: parse_pdf_def primary_def split: if_splits sum.splits prod.splits)

lemma parse_pdf_raises_iff:
  "isl (parse_pdf env p) \<longleftrightarrow>
     \<not> path_exists env p \<or> (\<not> PDFPLUMBER_AVAILABLE env \<and> \<not> PYPDF2_AVAILABLE env)"
  by (auto simp: parse_pdf_def primary_def split: if_splits sum.splits prod.splits)

lemma parse_pdf_no_library:
  "path_exists env p \<Longrightarrow> \<not> PDFPLUMBER_AVAILABLE env \<Longrightarrow> \<not> PYPDF2_AVAILABLE env \<Longrightarrow>
   parse_pdf env p = Inl NoPdfLibrary"
  by (simp add: parse_pdf_def primary_def)

text \<open>
  Claim C3. The claim holds for the missing path, for the missing backends and for empty
  text (the three lemmas above), but not where it says that \<open>parse_pdf\<close> fails when
  every backend raises: each helper catches the exception of its library and returns
  \<open>("", 0)\<close>, so \<open>parse_pdf\<close> returns normally. Here both libraries are installed, the
  file exists, and both libraries raise on it; the call returns a result with empty text
  and zero pages after invoking both helpers. The docstring of \<open>parse_pdf\<close> announces an
  exception "if PDF parsing fails".
\<close>

theorem parse_pdf_swallows_backend_errors:
  "path_exists demo_both_env ''docs/c.pdf''
   \<and> PDFPLUMBER_AVAILABLE demo_both_env \<and> PYPDF2_AVAILABLE demo_both_env
   \<and> pdfplumber_pages demo_both_env ''docs/c.pdf'' = Inl BackendFailure
   \<and> pypdf2_pages demo_both_env ''docs/c.pdf'' = Inl BackendFailure
   \<and> parse_pdf demo_both_env ''docs/c.pdf'' =
       Inr (\<lparr>text_content = [], page_count = 0, size_kb = 2,
             metadata = [(''filename'', ''c.pdf'')]\<rparr>, [Pdfplumber, PyPDF2])"
  by (simp add: demo_both_env_def demo_pdf_env_def parse_pdf_def primary_def
        parse_with_pdfplumber_def parse_with_pypdf2_def extract_metadata_def)

text \<open>
  Claim C4. For an existing file: when both backends are available, pdfplumber is called
  first, PyPDF2 is called if and only if the text of pdfplumber has fewer than 100
  characters, and then the text and the page count of PyPDF2 are the ones returned
  (otherwise those of pdfplumber); when only one backend is available, it alone is called
  and its text and page count are returned.
\<close>

theorem parse_pdf_fallback:
  "path_exists env p \<longrightarrow>
     (PDFPLUMBER_AVAILABLE env \<and> PYPDF2_AVAILABLE env \<longrightarrow>
        (\<exists>r calls. parse_pdf env p = Inr (r, calls) \<and> hd calls = Pdfplumber \<and>
           (PyPDF2 \<in> set calls \<longleftrightarrow> length (fst (parse_with_pdfplumber env p)) < 100) \<and>
           (text_content r, page_count r) =
             (if length (fst (parse_with_pdfplumber env p)) < 100
              then parse_with_pypdf2 env p else parse_with_pdfplumber env p)))
   \<and> (PDFPLUMBER_AVAILABLE env \<and> \<not> PYPDF2_AVAILABLE env \<longrightarrow>
        (\<exists>r. parse_pdf env p = Inr (r, [Pdfplumber]) \<and>
           (text_content r, page_count r) = parse_with_pdfplumber env p))
   \<and> (\<not> PDFPLUMBER_AVAILABLE env \<and> PYPDF2_AVAILABLE env \<longrightarrow>
        (\<exists>r. parse_pdf env p = Inr (r, [PyPDF2]) \<and>
           (text_content r, page_count r) = parse_with_pypdf2 env p))"
  by (cases "parse_with_pdfplumber env p"; cases "parse_with_pypdf2 env p")
     (simp add: parse_pdf_def primary_def)

lemma both_a: "parse_with_pdfplumber demo_both_env ''docs/a.pdf'' = (demo_text_a, 3)"
  by (simp add: demo_both_env_def demo_pdf_env_def parse_with_pdfplumber_def str_nat.simps digit_char_def demo_text_a_def)

lemma both_b: "parse_with_pdfplumber demo_both_env ''docs/b.pdf'' = (demo_text_b, 1)"
  by (simp add: demo_both_env_def demo_pdf_env_def parse_with_pdfplumber_def str_nat.simps digit_char_def demo_text_b_def)

lemma both_b2: "parse_with_pypdf2 demo_both_env ''docs/b.pdf'' = (''\<newline>--- Page 1 ---\<newline>\<newline>PID #09912345 (second reader)'', 1)"
  by (simp add: demo_both_env_def demo_pdf_env_def parse_with_pypdf2_def str_nat.simps digit_char_def)

lemma len_a: "length demo_text_a = 142" by (simp add: demo_text_a_def)
lemma len_b: "length demo_text_b = 30" by (simp add: demo_text_b_def)


lemma only2_b: "parse_with_pypdf2 demo_pypdf2_env ''docs/b.pdf'' = (''\<newline>--- Page 1 ---\<newline>\<newline>PID #09912345 (second reader)'', 1)"
  by (simp add: demo_pypdf2_env_def demo_both_env_def demo_pdf_env_def parse_with_pypdf2_def str_nat.simps digit_char_def)

lemma only1_b: "parse_with_pdfplumber demo_pdf_env ''docs/b.pdf'' = (demo_text_b, 1)"
  by (simp add: demo_pdf_env_def parse_with_pdfplumber_def str_nat.simps digit_char_def demo_text_b_def)

text \<open>
  With both backends: \<open>a.pdf\<close> gives 142 characters and no fallback, \<open>b.pdf\<close> gives 30
  characters and the result of PyPDF2. With one backend: that backend's result.
\<close>

theorem parse_pdf_fallback_witness:
  "path_exists demo_both_env ''docs/a.pdf''
   \<and> PDFPLUMBER_AVAILABLE demo_both_env \<and> PYPDF2_AVAILABLE demo_both_env
   \<and> \<not> length (fst (parse_with_pdfplumber demo_both_env ''docs/a.pdf'')) < 100
   \<and> (\<exists>r calls. parse_pdf demo_both_env ''docs/a.pdf'' = Inr (r, calls) \<and> hd calls = Pdfplumber \<and>
         PyPDF2 \<notin> set calls \<and> text_content r = demo_text_a \<and> page_count r = 3)
   \<and> path_exists demo_both_env ''docs/b.pdf''
   \<and> length (fst (parse_with_pdfplumber demo_both_env ''docs/b.pdf'')) < 100
   \<and> (\<exists>r calls. parse_pdf demo_both_env ''docs/b.pdf'' = Inr (r, calls) \<and> hd calls = Pdfplumber \<and>
         PyPDF2 \<in> set calls \<and>
         text_content r = ''\<newline>--- Page 1 ---\<newline>\<newline>PID #09912345 (second reader)'' \<and>
         page_count r = 1)
   \<and> path_exists demo_pdf_env ''docs/b.pdf''
   \<and> PDFPLUMBER_AVAILABLE demo_pdf_env \<and> \<not> PYPDF2_AVAILABLE demo_pdf_env
   \<and> (\<exists>r. parse_pdf demo_pdf_env ''docs/b.pdf'' = Inr (r, [Pdfplumber]) \<and>
         text_content r = demo_text_b \<and> page_count r = 1)
   \<and> path_exists demo_pypdf2_env ''docs/b.pdf''
   \<and> \<not> PDFPLUMBER_AVAILABLE demo_pypdf2_env \<and> PYPDF2_AVAILABLE demo_pypdf2_env
   \<and> (\<exists>r. parse_pdf demo_pypdf2_env ''docs/b.pdf'' = Inr (r, [PyPDF2]) \<and>
         text_content r = ''\<newline>--- Page 1 ---\<newline>\<newline>PID #09912345 (second reader)'' \<and>
         page_count r = 1)"
proof -
  have ea: "path_exists demo_both_env ''docs/a.pdf''"
    and eb: "path_exists demo_both_env ''docs/b.pdf''"
    and av: "PDFPLUMBER_AVAILABLE demo_both_env \<and> PYPDF2_AVAILABLE demo_both_env"
    by (simp_all add: demo_both_env_def demo_pdf_env_def)
  have e1: "path_exists demo_pdf_env ''docs/b.pdf''"
    and av1: "PDFPLUMBER_AVAILABLE demo_pdf_env \<and> \<not> PYPDF2_AVAILABLE demo_pdf_env"
    by (simp_all add: demo_pdf_env_def)
  have e2: "path_exists demo_pypdf2_env ''docs/b.pdf''"
    and av2: "\<not> PDFPLUMBER_AVAILABLE demo_pypdf2_env \<and> PYPDF2_AVAILABLE demo_pypdf2_env"
    by (simp_all add: demo_pypdf2_env_def demo_both_env_def demo_pdf_env_def)
  have la: "\<not> length (fst (parse_with_pdfplumber demo_both_env ''docs/a.pdf'')) < 100"
    by (simp add: both_a len_a)
  have lb: "length (fst (parse_with_pdfplumber demo_both_env ''docs/b.pdf'')) < 100"
    by (simp add: both_b len_b)
  from parse_pdf_fallback [of demo_both_env "''docs/a.pdf''"] ea av la
  have ra: "\<exists>r calls. parse_pdf demo_both_env ''docs/a.pdf'' = Inr (r, calls) \<and> hd calls = Pdfplumber \<and>
         PyPDF2 \<notin> set calls \<and> text_content r = demo_text_a \<and> page_count r = 3"
    by (auto simp: both_a)
  from parse_pdf_fallback [of demo_both_env "''docs/b.pdf''"] eb av lb
  have rb: "\<exists>r calls. parse_pdf demo_both_env ''docs/b.pdf'' = Inr (r, calls) \<and> hd calls = Pdfplumber \<and>
         PyPDF2 \<in> set calls \<and>
         text_content r = ''\<newline>--- Page 1 ---\<newline>\<newline>PID #09912345 (second reader)'' \<and>
         page_count r = 1"
    by (auto simp: both_b2)
  from parse_pdf_fallback [of demo_pdf_env "''docs/b.pdf''"] e1 av1
  have r1: "\<exists>r. parse_pdf demo_pdf_env ''docs/b.pdf'' = Inr (r, [Pdfplumber]) \<and>
         text_content r = demo_text_b \<and> page_count r = 1"
    by (auto simp: only1_b)
  from parse_pdf_fallback [of demo_pypdf2_env "''docs/b.pdf''"] e2 av2
  have r2: "\<exists>r. parse_pdf demo_pypdf2_env ''docs/b.pdf'' = Inr (r, [PyPDF2]) \<and>
         text_content r = ''\<newline>--- Page 1 ---\<newline>\<newline>PID #09912345 (second reader)'' \<and>
         page_count r = 1"
    by (auto simp: only2_b)
  from ea av la ra eb lb rb e1 av1 r1 e2 av2 r2 show ?thesis by blast
qed

section \<open>Properties of the date filter\<close>

text \<open>On ISO dates the order of strings is the order of the calendar.\<close>

lemma digit_bounds: "is_digit c \<Longrightarrow> 48 \<le> (of_char c :: nat) \<and> (of_char c :: nat) \<le> 57"
  by (simp add: is_digit_def less_eq_char_def)

lemma digit_value_le: "is_digit c \<Longrightarrow> digit_value c \<le> 9"
  using digit_bounds [of c] unfolding digit_value_def by arith

lemma digit_less: "is_digit c \<Longrightarrow> is_digit d \<Longrightarrow> c < d \<longleftrightarrow> digit_value c < digit_value d"
  using digit_bounds [of c] digit_bounds [of d] unfolding digit_value_def less_char_def by arith

lemma digit_eq: "is_digit c \<Longrightarrow> is_digit d \<Longrightarrow> c = d \<longleftrightarrow> digit_value c = digit_value d"
proof -
  assume c: "is_digit c" and d: "is_digit d"
  have "c = d \<longleftrightarrow> (of_char c :: nat) = of_char d" by simp
  also have "\<dots> \<longleftrightarrow> digit_value c = digit_value d"
    using digit_bounds [OF c] digit_bounds [OF d] unfolding digit_value_def by arith
  finally show ?thesis .
qed

lemma lex2:
  fixes a b c d :: nat
  assumes "b \<le> 9" "d \<le> 9"
  shows "(a < c \<or> a = c \<and> (b < d \<or> b = d \<and> R)) \<longleftrightarrow> (10 * a + b < 10 * c + d \<or> 10 * a + b = 10 * c + d \<and> R)"
  using assms by auto

lemma lex4:
  fixes x1 x2 x3 x4 y1 y2 y3 y4 :: nat
  assumes "x2 \<le> 9" "x3 \<le> 9" "x4 \<le> 9" "y2 \<le> 9" "y3 \<le> 9" "y4 \<le> 9"
  shows "(x1 < y1 \<or> x1 = y1 \<and> (x2 < y2 \<or> x2 = y2 \<and> (x3 < y3 \<or> x3 = y3 \<and> (x4 < y4 \<or> x4 = y4 \<and> R))))
     \<longleftrightarrow> (1000 * x1 + 100 * x2 + 10 * x3 + x4 < 1000 * y1 + 100 * y2 + 10 * y3 + y4 \<or>
          1000 * x1 + 100 * x2 + 10 * x3 + x4 = 1000 * y1 + 100 * y2 + 10 * y3 + y4 \<and> R)"
  using assms by auto


lemma lex_date:
  fixes x1 x2 x3 x4 x5 x6 x7 x8 y1 y2 y3 y4 y5 y6 y7 y8 :: nat
  assumes x: "x2 \<le> 9" "x3 \<le> 9" "x4 \<le> 9" and x6: "x6 \<le> 9" and x8: "x8 \<le> 9"
    and y: "y2 \<le> 9" "y3 \<le> 9" "y4 \<le> 9" and y6: "y6 \<le> 9" and y8: "y8 \<le> 9"
  shows "(x1 < y1 \<or> x1 = y1 \<and> (x2 < y2 \<or> x2 = y2 \<and> (x3 < y3 \<or> x3 = y3 \<and> (x4 < y4 \<or> x4 = y4 \<and>
          (x5 < y5 \<or> x5 = y5 \<and> (x6 < y6 \<or> x6 = y6 \<and> (x7 < y7 \<or> x7 = y7 \<and> (x8 < y8 \<or> x8 = y8))))))))
     \<longleftrightarrow> date_le (1000 * x1 + 100 * x2 + 10 * x3 + x4, 10 * x5 + x6, 10 * x7 + x8)
                 (1000 * y1 + 100 * y2 + 10 * y3 + y4, 10 * y5 + y6, 10 * y7 + y8)"
proof -
  have d: "(x7 < y7 \<or> x7 = y7 \<and> (x8 < y8 \<or> x8 = y8)) \<longleftrightarrow> 10 * x7 + x8 \<le> 10 * y7 + y8"
    using x8 y8 by auto
  show ?thesis
    by (simp only: lex4 [OF x y] lex2 [OF x6 y6] d date_le.simps)
qed

lemma len10E:
  assumes "length s = 10"
  obtains x0 x1 x2 x3 x4 x5 x6 x7 x8 x9 where "s = [x0, x1, x2, x3, x4, x5, x6, x7, x8, x9]"
  using assms by (auto simp: eval_nat_numeral length_Suc_conv)

lemma iso_date_explicit:
  assumes "iso_date s"
  shows "\<exists>y1 y2 y3 y4 m1 m2 d1 d2.
           s = [y1, y2, y3, y4, CHR ''-'', m1, m2, CHR ''-'', d1, d2] \<and>
           is_digit y1 \<and> is_digit y2 \<and> is_digit y3 \<and> is_digit y4 \<and>
           is_digit m1 \<and> is_digit m2 \<and> is_digit d1 \<and> is_digit d2"
proof -
  from assms have "length s = 10" by (simp add: iso_date_def)
  then obtain x0 x1 x2 x3 x4 x5 x6 x7 x8 x9 where s: "s = [x0, x1, x2, x3, x4, x5, x6, x7, x8, x9]"
    by (rule len10E)
  from assms show ?thesis unfolding s by (simp add: iso_date_def)
qed

lemma date_of_10:
  "date_of [y1, y2, y3, y4, h1, m1, m2, h2, d1, d2] =
     (1000 * digit_value y1 + 100 * digit_value y2 + 10 * digit_value y3 + digit_value y4,
      10 * digit_value m1 + digit_value m2,
      10 * digit_value d1 + digit_value d2)"
  by (simp add: date_of_def)

lemma lex_cong:
  assumes "l1 \<longleftrightarrow> l1'" "e1 \<longleftrightarrow> e1'" "l2 \<longleftrightarrow> l2'" "e2 \<longleftrightarrow> e2'" "l3 \<longleftrightarrow> l3'" "e3 \<longleftrightarrow> e3'"
    "l4 \<longleftrightarrow> l4'" "e4 \<longleftrightarrow> e4'" "l5 \<longleftrightarrow> l5'" "e5 \<longleftrightarrow> e5'" "l6 \<longleftrightarrow> l6'" "e6 \<longleftrightarrow> e6'"
    "l7 \<longleftrightarrow> l7'" "e7 \<longleftrightarrow> e7'" "l8 \<longleftrightarrow> l8'" "e8 \<longleftrightarrow> e8'"
  shows "(l1 \<or> e1 \<and> (l2 \<or> e2 \<and> (l3 \<or> e3 \<and> (l4 \<or> e4 \<and> (l5 \<or> e5 \<and> (l6 \<or> e6 \<and> (l7 \<or> e7 \<and> (l8 \<or> e8))))))))
     \<longleftrightarrow> (l1' \<or> e1' \<and> (l2' \<or> e2' \<and> (l3' \<or> e3' \<and> (l4' \<or> e4' \<and> (l5' \<or> e5' \<and> (l6' \<or> e6' \<and> (l7' \<or> e7' \<and> (l8' \<or> e8'))))))))"
  by (simp only: assms)

lemma lex_digits:
  assumes da: "is_digit y1" "is_digit y2" "is_digit y3" "is_digit y4"
    "is_digit m1" "is_digit m2" "is_digit d1" "is_digit d2"
  and db: "is_digit z1" "is_digit z2" "is_digit z3" "is_digit z4"
    "is_digit n1" "is_digit n2" "is_digit e1" "is_digit e2"
  shows "(y1 < z1 \<or> y1 = z1 \<and> (y2 < z2 \<or> y2 = z2 \<and> (y3 < z3 \<or> y3 = z3 \<and> (y4 < z4 \<or> y4 = z4 \<and>
          (m1 < n1 \<or> m1 = n1 \<and> (m2 < n2 \<or> m2 = n2 \<and> (d1 < e1 \<or> d1 = e1 \<and> (d2 < e2 \<or> d2 = e2)))))))) \<longleftrightarrow>
     (digit_value y1 < digit_value z1 \<or> digit_value y1 = digit_value z1 \<and>
     (digit_value y2 < digit_value z2 \<or> digit_value y2 = digit_value z2 \<and>
     (digit_value y3 < digit_value z3 \<or> digit_value y3 = digit_value z3 \<and>
     (digit_value y4 < digit_value z4 \<or> digit_value y4 = digit_value z4 \<and>
     (digit_value m1 < digit_value n1 \<or> digit_value m1 = digit_value n1 \<and>
     (digit_value m2 < digit_value n2 \<or> digit_value m2 = digit_value n2 \<and>
     (digit_value d1 < digit_value e1 \<or> digit_value d1 = digit_value e1 \<and>
     (digit_value d2 < digit_value e2 \<or> digit_value d2 = digit_value e2))))))))"
    by (intro lex_cong digit_less digit_eq da db)

lemma lex_values:
  assumes da: "is_digit y1" "is_digit y2" "is_digit y3" "is_digit y4"
    "is_digit m1" "is_digit m2" "is_digit d1" "is_digit d2"
  and db: "is_digit z1" "is_digit z2" "is_digit z3" "is_digit z4"
    "is_digit n1" "is_digit n2" "is_digit e1" "is_digit e2"
  shows "
     (digit_value y1 < digit_value z1 \<or> digit_value y1 = digit_value z1 \<and>
     (digit_value y2 < digit_value z2 \<or> digit_value y2 = digit_value z2 \<and>
     (digit_value y3 < digit_value z3 \<or> digit_value y3 = digit_value z3 \<and>
     (digit_value y4 < digit_value z4 \<or> digit_value y4 = digit_value z4 \<and>
     (digit_value m1 < digit_value n1 \<or> digit_value m1 = digit_value n1 \<and>
     (digit_value m2 < digit_value n2 \<or> digit_value m2 = digit_value n2 \<and>
     (digit_value d1 < digit_value e1 \<or> digit_value d1 = digit_value e1 \<and>
     (digit_value d2 < digit_value e2 \<or> digit_value d2 = digit_value e2)))))))) \<longleftrightarrow>
   date_le (date_of [y1, y2, y3, y4, CHR ''-'', m1, m2, CHR ''-'', d1, d2]) (date_of [z1, z2, z3, z4, CHR ''-'', n1, n2, CHR ''-'', e1, e2])"
    unfolding date_of_10
    by (rule lex_date) (simp_all add: da db digit_value_le)

lemma iso_le_explicit:
  assumes da: "is_digit y1" "is_digit y2" "is_digit y3" "is_digit y4"
    "is_digit m1" "is_digit m2" "is_digit d1" "is_digit d2"
  and db: "is_digit z1" "is_digit z2" "is_digit z3" "is_digit z4"
    "is_digit n1" "is_digit n2" "is_digit e1" "is_digit e2"
  shows "[y1, y2, y3, y4, CHR ''-'', m1, m2, CHR ''-'', d1, d2] \<le> [z1, z2, z3, z4, CHR ''-'', n1, n2, CHR ''-'', e1, e2] \<longleftrightarrow>
   date_le (date_of [y1, y2, y3, y4, CHR ''-'', m1, m2, CHR ''-'', d1, d2]) (date_of [z1, z2, z3, z4, CHR ''-'', n1, n2, CHR ''-'', e1, e2])"
proof -
  have "[y1, y2, y3, y4, CHR ''-'', m1, m2, CHR ''-'', d1, d2] \<le> [z1, z2, z3, z4, CHR ''-'', n1, n2, CHR ''-'', e1, e2] \<longleftrightarrow>
     (y1 < z1 \<or> y1 = z1 \<and> (y2 < z2 \<or> y2 = z2 \<and> (y3 < z3 \<or> y3 = z3 \<and> (y4 < z4 \<or> y4 = z4 \<and>
          (m1 < n1 \<or> m1 = n1 \<and> (m2 < n2 \<or> m2 = n2 \<and> (d1 < e1 \<or> d1 = e1 \<and> (d2 < e2 \<or> d2 = e2))))))))"
    by simp
  then show ?thesis
    by (simp only: lex_digits [OF da db] lex_values [OF da db])
qed

lemma iso_le_iff:
  assumes "iso_date a" and "iso_date b"
  shows "a \<le> b \<longleftrightarrow> date_le (date_of a) (date_of b)"
  using iso_date_explicit [OF assms(1)] iso_date_explicit [OF assms(2)]
  by (elim exE conjE, hypsubst) (rule iso_le_explicit; assumption)


lemma iso_date_nonempty: "iso_date s \<Longrightarrow> s \<noteq> []"
  by (auto simp: iso_date_def)

lemma filter_by_date_strings:
  "filter_by_date meetings start_date end_date =
     filter (\<lambda>m. (given start_date \<longrightarrow> the start_date \<le> meeting_date m) \<and>
                 (given end_date \<longrightarrow> meeting_date m \<le> the end_date)) meetings"
  by (simp add: filter_by_date_def Let_def)

lemma filter_by_date_none: "filter_by_date meetings None None = meetings"
  by (simp add: filter_by_date_def given_def)

lemma in_range_strings:
  assumes d: "iso_date d"
    and s: "\<forall>s. start_date = Some s \<longrightarrow> iso_date s"
    and e: "\<forall>e. end_date = Some e \<longrightarrow> iso_date e"
  shows "((given start_date \<longrightarrow> the start_date \<le> d) \<and> (given end_date \<longrightarrow> d \<le> the end_date))
         \<longleftrightarrow> in_date_range start_date end_date d"
proof -
  have 1: "(given start_date \<longrightarrow> the start_date \<le> d) \<longleftrightarrow>
           (case start_date of None \<Rightarrow> True | Some s \<Rightarrow> date_le (date_of s) (date_of d))"
  proof (cases start_date)
    case None
    then show ?thesis by (simp add: given_def)
  next
    case (Some x)
    with s have "iso_date x" by simp
    with Some d show ?thesis by (simp add: given_def iso_date_nonempty iso_le_iff)
  qed
  have 2: "(given end_date \<longrightarrow> d \<le> the end_date) \<longleftrightarrow>
           (case end_date of None \<Rightarrow> True | Some e \<Rightarrow> date_le (date_of d) (date_of e))"
  proof (cases end_date)
    case None
    then show ?thesis by (simp add: given_def)
  next
    case (Some x)
    with e have "iso_date x" by simp
    with Some d show ?thesis by (simp add: given_def iso_date_nonempty iso_le_iff)
  qed
  show ?thesis unfolding in_date_range_def by (simp only: 1 2)
qed

text \<open>
  Claim C8. \<open>_filter_by_date\<close> is a filter of the list it is given, so it keeps the order:
  it keeps exactly the meetings whose date is not below the start bound, when one is
  given, and not above the end bound, when one is given (string comparison, both bounds
  inclusive); with no bound the list is returned unchanged; and when the meeting dates and
  the given bounds are in ISO form, the meetings kept are exactly those whose calendar date
  lies between the given bounds, inclusive.
\<close>

theorem filter_by_date_inclusive:
  "filter_by_date meetings start_date end_date =
     filter (\<lambda>m. (given start_date \<longrightarrow> the start_date \<le> meeting_date m) \<and>
                 (given end_date \<longrightarrow> meeting_date m \<le> the end_date)) meetings
   \<and> filter_by_date meetings None None = meetings
   \<and> ((\<forall>m\<in>set meetings. iso_date (meeting_date m)) \<and>
       (\<forall>s. start_date = Some s \<longrightarrow> iso_date s) \<and> (\<forall>e. end_date = Some e \<longrightarrow> iso_date e) \<longrightarrow>
       filter_by_date meetings start_date end_date =
         filter (\<lambda>m. in_date_range start_date end_date (meeting_date m)) meetings)"
proof (intro conjI impI)
  show "filter_by_date meetings start_date end_date =
     filter (\<lambda>m. (given start_date \<longrightarrow> the start_date \<le> meeting_date m) \<and>
                 (given end_date \<longrightarrow> meeting_date m \<le> the end_date)) meetings"
    by (rule filter_by_date_strings)
  show "filter_by_date meetings None None = meetings"
    by (rule filter_by_date_none)
  assume a: "(\<forall>m\<in>set meetings. iso_date (meeting_date m)) \<and>
       (\<forall>s. start_date = Some s \<longrightarrow> iso_date s) \<and> (\<forall>e. end_date = Some e \<longrightarrow> iso_date e)"
  have "filter (\<lambda>m. (given start_date \<longrightarrow> the start_date \<le> meeting_date m) \<and>
                 (given end_date \<longrightarrow> meeting_date m \<le> the end_date)) meetings =
        filter (\<lambda>m. in_date_range start_date end_date (meeting_date m)) meetings"
  proof (rule filter_cong [OF refl])
    fix m assume "m \<in> set meetings"
    with a have "iso_date (meeting_date m)" by simp
    with a show "((given start_date \<longrightarrow> the start_date \<le> meeting_date m) \<and>
                 (given end_date \<longrightarrow> meeting_date m \<le> the end_date)) =
                 in_date_range start_date end_date (meeting_date m)"
      by (intro in_range_strings) simp_all
  qed
  then show "filter_by_date meetings start_date end_date =
         filter (\<lambda>m. in_date_range start_date end_date (meeting_date m)) meetings"
    by (simp only: filter_by_date_strings)
qed

lemma iso_demo: "iso_date ''2026-01-25''" "iso_date ''2026-01-10''" "iso_date ''2026-01-09''"
  "iso_date ''2026-01-20''" "iso_date ''2026-01-15''" "iso_date ''2026-01-21''"
  by (simp_all add: iso_date_def is_digit_def)

text \<open>
  The January meetings filtered with start 2026-01-10 and end 2026-01-20: the meetings of
  the 10th, the 20th and the 15th remain, in their original order.
\<close>

theorem filter_by_date_inclusive_witness:
  "list_all (\<lambda>m. iso_date (meeting_date m)) january_meetings
   \<and> iso_date ''2026-01-10'' \<and> iso_date ''2026-01-20''
   \<and> filter_by_date january_meetings (Some ''2026-01-10'') (Some ''2026-01-20'') =
        [demo_meeting ''City Council'' ''2026-01-10'',
         demo_meeting ''Zoning Meeting'' ''2026-01-20'',
         demo_meeting ''Planning Committee'' ''2026-01-15'']
   \<and> filter (\<lambda>m. in_date_range (Some ''2026-01-10'') (Some ''2026-01-20'') (meeting_date m)) january_meetings =
        [demo_meeting ''City Council'' ''2026-01-10'',
         demo_meeting ''Zoning Meeting'' ''2026-01-20'',
         demo_meeting ''Planning Committee'' ''2026-01-15'']"
proof -
  have i: "\<forall>m\<in>set january_meetings. iso_date (meeting_date m)"
    by (simp add: january_meetings_def demo_meeting_def iso_demo)
  have f: "filter_by_date january_meetings (Some ''2026-01-10'') (Some ''2026-01-20'') =
        [demo_meeting ''City Council'' ''2026-01-10'',
         demo_meeting ''Zoning Meeting'' ''2026-01-20'',
         demo_meeting ''Planning Committee'' ''2026-01-15'']"
    by (simp add: filter_by_date_def given_def january_meetings_def demo_meeting_def)
  have h: "(\<forall>m\<in>set january_meetings. iso_date (meeting_date m)) \<and>
       (\<forall>s. Some ''2026-01-10'' = Some s \<longrightarrow> iso_date s) \<and>
       (\<forall>e. Some ''2026-01-20'' = Some e \<longrightarrow> iso_date e)"
    using i iso_demo by auto
  from filter_by_date_inclusive [of january_meetings "Some ''2026-01-10''" "Some ''2026-01-20''"] h
  have "filter_by_date january_meetings (Some ''2026-01-10'') (Some ''2026-01-20'') =
        filter (\<lambda>m. in_date_range (Some ''2026-01-10'') (Some ''2026-01-20'') (meeting_date m)) january_meetings"
    by blast
  with f have "filter (\<lambda>m. in_date_range (Some ''2026-01-10'') (Some ''2026-01-20'') (meeting_date m)) january_meetings =
        [demo_meeting ''City Council'' ''2026-01-10'',
         demo_meeting ''Zoning Meeting'' ''2026-01-20'',
         demo_meeting ''Planning Committee'' ''2026-01-15'']"
    by simp
  moreover from i have "list_all (\<lambda>m. iso_date (meeting_date m)) january_meetings"
    by (simp add: list_all_iff)
  ultimately show ?thesis using f iso_demo by blast
qed

section \<open>Properties of the calendar parser\<close>

lemma make_absolute_url_Some_iff:
  "(\<exists>v. make_absolute_url env url = Some v) \<longleftrightarrow> (\<exists>u. url = Some u \<and> u \<noteq> [] \<and> u \<noteq> ''#'')"
  by (auto simp: make_absolute_url_def split: option.splits)

lemma parse_calendar_row_Some_iff:
  "(\<exists>m. parse_calendar_row env cells = Some m) \<longleftrightarrow>
     (6 \<le> length cells \<and>
      (\<exists>d. parse_date env (cell_text (cells ! 1)) = Some d \<and> d \<noteq> []) \<and>
      (\<exists>a u. cell_a (cells ! 5) = Some a \<and> href a = Some u \<and> u \<noteq> [] \<and> u \<noteq> ''#''))"
proof (cases "length cells < 5")
  case True
  then show ?thesis by (simp add: parse_calendar_row_def)
next
  case False
  show ?thesis
  proof (cases "parse_date env (cell_text (cells ! 1))")
    case None
    with False show ?thesis by (simp add: parse_calendar_row_def)
  next
    case (Some d)
    show ?thesis
    proof (cases "d = [] \<or> length cells \<le> 5")
      case True
      with False Some show ?thesis by (auto simp: parse_calendar_row_def Let_def)
    next
      case nonempty: False
      show ?thesis
      proof (cases "cell_a (cells ! 5)")
        case None
        with False Some nonempty show ?thesis by (simp add: parse_calendar_row_def Let_def)
      next
        case (Some a)
        have "(\<exists>m. (case Meeting_init t d tm loc (make_absolute_url env (href a)) ag of
                       Inl e \<Rightarrow> None | Inr m \<Rightarrow> Some m) = Some m) \<longleftrightarrow>
              (\<exists>u. href a = Some u \<and> u \<noteq> [] \<and> u \<noteq> ''#'')" for t tm loc ag
          using make_absolute_url_Some_iff [of env "href a"]
          by (cases "make_absolute_url env (href a)") (auto simp: Meeting_init_def)
        with False \<open>parse_date env (cell_text (cells ! 1)) = Some d\<close> nonempty Some
        show ?thesis by (simp add: parse_calendar_row_def Let_def)
      qed
    qed
  qed
qed

lemma parse_date_priority:
  "parse_date env s =
     (case strptime env s ''%m/%d/%Y'' of
        Some dt \<Rightarrow> Some (strftime env dt ''%Y-%m-%d'')
      | None \<Rightarrow>
     (case strptime env s ''%Y-%m-%d'' of
        Some dt \<Rightarrow> Some (strftime env dt ''%Y-%m-%d'')
      | None \<Rightarrow>
     (case strptime env s ''%B %d, %Y'' of
        Some dt \<Rightarrow> Some (strftime env dt ''%Y-%m-%d'')
      | None \<Rightarrow> None)))"
  by (simp add: parse_date_def date_formats_def split: option.splits)

lemma parse_rows_map_filter: "parse_rows env rows = List.map_filter (parse_calendar_row env) rows"
  by (induction rows) (simp_all add: List.map_filter_simps split: option.splits)

lemma demo_date: "parse_date demo_scraper_env ''01/20/2026'' = Some ''2026-01-20''"
  by (simp add: parse_date_priority demo_scraper_env_def pad2_def str_nat.simps digit_char_def)

lemma five_cells: "length five_cell_row = 5 \<and> cell_text (five_cell_row ! 1) = ''01/20/2026''"
  by (simp add: five_cell_row_def good_row_def demo_text_cell_def)

lemma five_cell_date:
  "parse_date demo_scraper_env (cell_text (five_cell_row ! 1)) = Some ''2026-01-20''"
  by (simp only: five_cells demo_date)

lemma five_cell_row_skipped: "parse_calendar_row demo_scraper_env five_cell_row = None"
proof -
  have "\<not> (\<exists>m. parse_calendar_row demo_scraper_env five_cell_row = Some m)"
    by (simp only: parse_calendar_row_Some_iff five_cells) simp
  then show ?thesis
    by (cases "parse_calendar_row demo_scraper_env five_cell_row") auto
qed

text \<open>
  Claim C9 as stated fails: a row with five columns and a date that parses gives no
  meeting, because the link to the meeting details is read from the sixth column and a row
  without it is skipped.
\<close>

theorem five_column_row_gives_no_meeting:
  "5 \<le> length five_cell_row
   \<and> parse_date demo_scraper_env (cell_text (five_cell_row ! 1)) = Some ''2026-01-20''
   \<and> parse_calendar_row demo_scraper_env five_cell_row = None"
  using five_cells five_cell_date five_cell_row_skipped by simp

text \<open>
  Claim C9, amended. A row gives a meeting exactly when it has at least six columns, its
  date parses to a non-empty string, and its sixth column holds a link whose \<open>href\<close> is
  present, not empty and not \<open>#\<close>; the date of the meeting is the parsed date. The date is
  parsed with the first of the formats \<open>%m/%d/%Y\<close>, \<open>%Y-%m-%d\<close>, \<open>%B %d, %Y\<close> that
  accepts it, and is absent when none does. The rows of a page are parsed one by one and
  the rows that give no meeting are left out: a row that is skipped changes nothing for
  the rows before and after it, and nothing raises.
\<close>

theorem parse_calendar_row_six_columns:
  "((\<exists>m. parse_calendar_row env cells = Some m) \<longleftrightarrow>
      (6 \<le> length cells \<and>
       (\<exists>d. parse_date env (cell_text (cells ! 1)) = Some d \<and> d \<noteq> []) \<and>
       (\<exists>a u. cell_a (cells ! 5) = Some a \<and> href a = Some u \<and> u \<noteq> [] \<and> u \<noteq> ''#'')))
   \<and> (\<forall>m. parse_calendar_row env cells = Some m \<longrightarrow>
         parse_date env (cell_text (cells ! 1)) = Some (meeting_date m))
   \<and> parse_date env s =
       (case strptime env s ''%m/%d/%Y'' of
          Some dt \<Rightarrow> Some (strftime env dt ''%Y-%m-%d'')
        | None \<Rightarrow>
       (case strptime env s ''%Y-%m-%d'' of
          Some dt \<Rightarrow> Some (strftime env dt ''%Y-%m-%d'')
        | None \<Rightarrow>
       (case strptime env s ''%B %d, %Y'' of
          Some dt \<Rightarrow> Some (strftime env dt ''%Y-%m-%d'')
        | None \<Rightarrow> None)))
   \<and> parse_rows env rows = List.map_filter (parse_calendar_row env) rows
   \<and> (parse_calendar_row env r = None \<longrightarrow>
        parse_rows env (before @ r # after) = parse_rows env before @ parse_rows env after)"
proof (intro conjI allI impI)
  show "(\<exists>m. parse_calendar_row env cells = Some m) \<longleftrightarrow>
      (6 \<le> length cells \<and>
       (\<exists>d. parse_date env (cell_text (cells ! 1)) = Some d \<and> d \<noteq> []) \<and>
       (\<exists>a u. cell_a (cells ! 5) = Some a \<and> href a = Some u \<and> u \<noteq> [] \<and> u \<noteq> ''#''))"
    by (rule parse_calendar_row_Some_iff)
  show "parse_date env s =
       (case strptime env s ''%m/%d/%Y'' of
          Some dt \<Rightarrow> Some (strftime env dt ''%Y-%m-%d'')
        | None \<Rightarrow>
       (case strptime env s ''%Y-%m-%d'' of
          Some dt \<Rightarrow> Some (strftime env dt ''%Y-%m-%d'')
        | None \<Rightarrow>
       (case strptime env s ''%B %d, %Y'' of
          Some dt \<Rightarrow> Some (strftime env dt ''%Y-%m-%d'')
        | None \<Rightarrow> None)))"
    by (rule parse_date_priority)
  show "parse_rows env rows = List.map_filter (parse_calendar_row env) rows"
    by (rule parse_rows_map_filter)
  show "parse_rows env (before @ r # after) = parse_rows env before @ parse_rows env after"
    if "parse_calendar_row env r = None"
    using that by (simp add: parse_rows_map_filter List.map_filter_def)
  show "parse_date env (cell_text (cells ! 1)) = Some (meeting_date m)"
    if "parse_calendar_row env cells = Some m" for m
    using that
    by (auto simp: parse_calendar_row_def Let_def Meeting_init_def
             split: if_splits option.splits sum.splits)
qed

lemma good_row_meeting: "parse_calendar_row demo_scraper_env good_row = Some good_meeting"
proof -
  have c: "length good_row = 7" "good_row ! 0 = demo_link ''Zoning Meeting'' ''DepartmentDetail.aspx?ID=1''"
    "good_row ! 1 = demo_text_cell ''01/20/2026''"
    "good_row ! 3 = \<lparr>cell_text = ''5:00 PM'', cell_a = None, cell_span = Some ''5:00 PM''\<rparr>"
    "good_row ! 4 = demo_text_cell ''Council Chamber''"
    "good_row ! 5 = demo_link ''Meeting details'' ''/MeetingDetail.aspx?ID=77''"
    "good_row ! 6 = demo_link ''Agenda'' ''#''"
    by (simp_all add: good_row_def)
  have u: "make_absolute_url demo_scraper_env (Some ''/MeetingDetail.aspx?ID=77'') =
           Some ''https://charlottenc.legistar.com/MeetingDetail.aspx?ID=77''"
    "make_absolute_url demo_scraper_env (Some ''#'') = None"
    by (simp_all add: make_absolute_url_def demo_scraper_env_def)
  show ?thesis
    unfolding parse_calendar_row_def c
    by (simp add: demo_link_def demo_text_cell_def demo_date u Meeting_init_def good_meeting_def)
qed

lemma bad_date_row_skipped: "parse_calendar_row demo_scraper_env bad_date_row = None"
proof -
  have c: "length bad_date_row = 7" "bad_date_row ! 1 = demo_text_cell ''TBD''"
    by (simp_all add: bad_date_row_def good_row_def)
  have "parse_date demo_scraper_env ''TBD'' = None"
    by (simp add: parse_date_priority demo_scraper_env_def)
  then show ?thesis
    unfolding parse_calendar_row_def c by (simp add: demo_text_cell_def)
qed

text \<open>
  The complete row gives its meeting; between two complete rows, the row with the
  unparseable date is skipped and both neighbours are kept.
\<close>

theorem parse_calendar_row_six_columns_witness:
  "6 \<le> length good_row
   \<and> parse_date demo_scraper_env (cell_text (good_row ! 1)) = Some ''2026-01-20''
   \<and> (\<exists>a u. cell_a (good_row ! 5) = Some a \<and> href a = Some u \<and> u \<noteq> [] \<and> u \<noteq> ''#'')
   \<and> parse_calendar_row demo_scraper_env good_row = Some good_meeting
   \<and> parse_calendar_row demo_scraper_env bad_date_row = None
   \<and> parse_rows demo_scraper_env ([good_row] @ bad_date_row # [good_row]) = [good_meeting, good_meeting]"
proof -
  note inst = parse_calendar_row_six_columns
    [of demo_scraper_env good_row "''01/20/2026''" "[good_row]" bad_date_row "[good_row]" "[good_row]"]
  from inst good_row_meeting
  have h: "6 \<le> length good_row \<and>
       (\<exists>d. parse_date demo_scraper_env (cell_text (good_row ! 1)) = Some d \<and> d \<noteq> []) \<and>
       (\<exists>a u. cell_a (good_row ! 5) = Some a \<and> href a = Some u \<and> u \<noteq> [] \<and> u \<noteq> ''#'')"
    by blast
  from inst good_row_meeting
  have d: "parse_date demo_scraper_env (cell_text (good_row ! 1)) = Some (meeting_date good_meeting)"
    by blast
  from inst bad_date_row_skipped
  have "parse_rows demo_scraper_env ([good_row] @ bad_date_row # [good_row]) =
        parse_rows demo_scraper_env [good_row] @ parse_rows demo_scraper_env [good_row]"
    by blast
  then have r: "parse_rows demo_scraper_env ([good_row] @ bad_date_row # [good_row]) = [good_meeting, good_meeting]"
    by (simp add: good_row_meeting)
  from d have d': "parse_date demo_scraper_env (cell_text (good_row ! 1)) = Some ''2026-01-20''"
    by (simp add: good_meeting_def)
  from h d' good_row_meeting bad_date_row_skipped r show ?thesis by blast
qed

section \<open>Properties of the storage layer\<close>

text \<open>
  Claim C10. When the file of an artifact does not exist, its load operation returns
  without raising: \<open>load_meetings\<close> and \<open>load_petitions\<close> return the empty list,
  \<open>get_stats\<close> returns the default statistics (every count zero, no scrape time), and
  \<open>load_parcels_geojson\<close> returns an empty FeatureCollection.
\<close>

theorem load_missing_artifacts:
  "(meetings_file st = None \<longrightarrow> load_meetings st = Inr [])
   \<and> (petitions_file st = None \<longrightarrow> load_petitions st = Inr [])
   \<and> (stats_file st = None \<longrightarrow>
        get_stats st = Inr \<lparr>total_meetings = 0, total_petitions = 0, zoning_meetings = 0,
                            petitions_with_pins = 0, total_pins = 0, last_scrape_time = None\<rparr>)
   \<and> (parcels_file st = None \<longrightarrow>
        load_parcels_geojson st = Inr \<lparr>collection_type = ''FeatureCollection'', features = []\<rparr>)"
  by (simp add: load_meetings_def load_petitions_def get_stats_def load_parcels_geojson_def
        ScraperStats_default_def)

text \<open>The four loads on a data directory without any file.\<close>

theorem load_missing_artifacts_witness:
  "meetings_file empty_storage = None \<and> load_meetings empty_storage = Inr []
   \<and> petitions_file empty_storage = None \<and> load_petitions empty_storage = Inr []
   \<and> stats_file empty_storage = None
   \<and> get_stats empty_storage = Inr \<lparr>total_meetings = 0, total_petitions = 0, zoning_meetings = 0,
                            petitions_with_pins = 0, total_pins = 0, last_scrape_time = None\<rparr>
   \<and> parcels_file empty_storage = None
   \<and> load_parcels_geojson empty_storage = Inr \<lparr>collection_type = ''FeatureCollection'', features = []\<rparr>"
proof -
  have e: "meetings_file empty_storage = None" "petitions_file empty_storage = None"
    "stats_file empty_storage = None" "parcels_file empty_storage = None"
    by (simp_all add: empty_storage_def)
  with load_missing_artifacts [of empty_storage] show ?thesis by blast
qed

section \<open>Properties of a run\<close>

lemma scrape_all_empty:
  assumes "fetch_calendar env start_date end_date = Inr []"
  shows "scrape_all env filter_zoning start_date end_date = Inr []"
  using assms by (simp add: scrape_all_def)

lemma run_no_meetings:
  assumes "scrape_meetings self = Inr []"
  shows "run self st = (st, False)"
  using assms by (simp add: run_def)

text \<open>
  Claim C5, amended. A run whose calendar fetch succeeds with zero meetings ends without
  an exception and without touching the stored artifacts, and it returns \<open>False\<close>: the
  outcome is defined, but it is reported as a failure, not as a success. The same holds
  when the meetings are all removed by the keyword filter or lose their details.
\<close>

theorem run_without_meetings_reports_failure:
  "(fetch_calendar (scraper self) (self_start_date self) (self_end_date self) = Inr [] \<longrightarrow>
      run self st = (st, False))
   \<and> (scrape_meetings self = Inr [] \<longrightarrow> run self st = (st, False))"
  by (auto simp: run_no_meetings scrape_meetings_def scrape_all_empty)

lemma quiet_calendar:
  "fetch_calendar (scraper quiet_orchestrator) (self_start_date quiet_orchestrator)
     (self_end_date quiet_orchestrator) = Inr []"
  by (simp add: quiet_orchestrator_def demo_orchestrator_def fetch_calendar_def given_def)

text \<open>The run on the empty calendar page, from an empty data directory.\<close>

theorem run_without_meetings_reports_failure_witness:
  "fetch_calendar (scraper quiet_orchestrator) (self_start_date quiet_orchestrator)
     (self_end_date quiet_orchestrator) = Inr []
   \<and> run quiet_orchestrator empty_storage = (empty_storage, False)"
  using run_without_meetings_reports_failure [of quiet_orchestrator empty_storage] quiet_calendar
  by blast

text \<open>
  Claim C5 as stated fails: the calendar page is fetched and has no row, and \<open>run\<close>
  returns \<open>False\<close> (\<open>if not meetings: ... return False\<close>).
\<close>

theorem empty_calendar_run_returns_false:
  "calendar_page (scraper quiet_orchestrator) = Inr []
   \<and> fetch_calendar (scraper quiet_orchestrator) None None = Inr []
   \<and> snd (run quiet_orchestrator empty_storage) = False"
  by (simp add: quiet_orchestrator_def demo_orchestrator_def fetch_calendar_def given_def
        run_def scrape_meetings_def scrape_all_def)

lemma demo_rows: "parse_rows demo_scraper_env [bad_date_row, good_row, five_cell_row] = [good_meeting]"
  by (simp add: bad_date_row_skipped good_row_meeting five_cell_row_skipped)

lemma zoning_keyword: "contains (lower ''Zoning Meeting'') ''zoning''"
  by (simp add: lower_def lower_char_def)

lemma demo_scrape: "scrape_meetings demo_orchestrator = Inr [detailed_meeting]"
proof -
  have s: "scraper demo_orchestrator = demo_scraper_env" "self_start_date demo_orchestrator = None"
    "self_end_date demo_orchestrator = None"
    by (simp_all add: demo_orchestrator_def)
  have c: "fetch_calendar demo_scraper_env None None = Inr [good_meeting]"
    using demo_rows by (simp add: fetch_calendar_def given_def demo_scraper_env_def)
  have t: "meeting_type good_meeting = ''Zoning Meeting''" by (simp add: good_meeting_def)
  have d: "meeting_details demo_scraper_env good_meeting = Inr detailed_meeting"
    by (simp add: demo_scraper_env_def detailed_meeting_def)
  show ?thesis
    unfolding scrape_meetings_def s scrape_all_def c
    by (simp add: t zoning_keyword d)
qed

lemma no_downloads:
  assumes "download_petition_attachments self = (\<lambda>n u. [])"
  shows "process_petitions self meetings = meetings"
proof -
  have "process_petition self p = p" for p
    using assms by (simp add: process_petition_def)
  then show ?thesis by (simp add: process_petitions_def map_idI)
qed

lemma demo_process: "process_petitions demo_orchestrator ms = ms"
  by (rule no_downloads) (simp add: demo_orchestrator_def)

lemma failing_process: "process_petitions failing_orchestrator ms = ms"
  by (rule no_downloads) (simp add: failing_orchestrator_def demo_orchestrator_def)

lemma locked_process: "process_petitions locked_orchestrator ms = ms"
  by (rule no_downloads) (simp add: locked_orchestrator_def demo_orchestrator_def)

lemma demo_geometry:
  "fetch_parcels_for_all_meetings env [detailed_meeting] =
     Inr \<lparr>collection_type = ''FeatureCollection'', features = []\<rparr>"
  by (simp add: fetch_parcels_for_all_meetings_def fetch_parcels_for_petitions_def detailed_meeting_def
        demo_petition_def pins_of_def empty_geojson_def)

lemma save_data_all_written:
  assumes "write_result (disk self) MeetingsFile = Written" "write_result (disk self) PetitionsFile = Written"
    "write_result (disk self) ParcelsFile = Written" "write_result (disk self) StatsFile = Written"
  shows "save_data self st meetings (Some geojson) =
     (\<lparr>meetings_file = Some (Content \<lparr>doc_meetings = meetings,
                                       meetings_last_updated = now (disk self),
                                       meetings_total_count = length meetings\<rparr>),
       petitions_file = Some (Content \<lparr>doc_petitions = all_petitions meetings,
                                        petitions_last_updated = now (disk self),
                                        petitions_total_count = length (all_petitions meetings)\<rparr>),
       stats_file = Some (Content (compute_stats (disk self) meetings)),
       parcels_file = Some (Content geojson)\<rparr>, Inr ())"
  using assms
  by (simp add: save_data_def save_meetings_def save_petitions_def save_parcels_geojson_def
        save_stats_def write_json_def)

lemma save_data_meetings_fail:
  "write_result (disk self) MeetingsFile = NotOpened e \<Longrightarrow>
     save_data self st meetings parcel_geojson = (st, Inl e)"
  "write_result (disk self) MeetingsFile = Truncated e \<Longrightarrow>
     save_data self st meetings parcel_geojson = (st\<lparr>meetings_file := Some Unreadable\<rparr>, Inl e)"
  by (simp_all add: save_data_def save_meetings_def write_json_def)

lemma save_data_petitions_fail:
  assumes "write_result (disk self) MeetingsFile = Written"
  shows "write_result (disk self) PetitionsFile = NotOpened e \<Longrightarrow>
     save_data self st meetings parcel_geojson =
       (st\<lparr>meetings_file := Some (Content \<lparr>doc_meetings = meetings,
                                            meetings_last_updated = now (disk self),
                                            meetings_total_count = length meetings\<rparr>)\<rparr>, Inl e)"
    and "write_result (disk self) PetitionsFile = Truncated e \<Longrightarrow>
     save_data self st meetings parcel_geojson =
       (st\<lparr>meetings_file := Some (Content \<lparr>doc_meetings = meetings,
                                            meetings_last_updated = now (disk self),
                                            meetings_total_count = length meetings\<rparr>),
           petitions_file := Some Unreadable\<rparr>, Inl e)"
  using assms by (simp_all add: save_data_def save_meetings_def save_petitions_def write_json_def)

lemma save_data_parcels_not_opened:
  assumes "write_result (disk self) MeetingsFile = Written" "write_result (disk self) PetitionsFile = Written"
    "write_result (disk self) ParcelsFile = NotOpened e"
  shows "save_data self st meetings (Some geojson) =
     (st\<lparr>meetings_file := Some (Content \<lparr>doc_meetings = meetings,
                                          meetings_last_updated = now (disk self),
                                          meetings_total_count = length meetings\<rparr>),
         petitions_file := Some (Content \<lparr>doc_petitions = all_petitions meetings,
                                           petitions_last_updated = now (disk self),
                                           petitions_total_count = length (all_petitions meetings)\<rparr>)\<rparr>,
      Inl e)"
  using assms
  by (simp add: save_data_def save_meetings_def save_petitions_def save_parcels_geojson_def write_json_def)

lemma save_data_parcels_truncated:
  assumes "write_result (disk self) MeetingsFile = Written" "write_result (disk self) PetitionsFile = Written"
    "write_result (disk self) ParcelsFile = Truncated e"
  shows "save_data self st meetings (Some geojson) =
     (st\<lparr>meetings_file := Some (Content \<lparr>doc_meetings = meetings,
                                          meetings_last_updated = now (disk self),
                                          meetings_total_count = length meetings\<rparr>),
         petitions_file := Some (Content \<lparr>doc_petitions = all_petitions meetings,
                                           petitions_last_updated = now (disk self),
                                           petitions_total_count = length (all_petitions meetings)\<rparr>),
         parcels_file := Some Unreadable\<rparr>,
      Inl e)"
  using assms
  by (simp add: save_data_def save_meetings_def save_petitions_def save_parcels_geojson_def write_json_def)

lemma save_data_stats_not_opened:
  assumes "write_result (disk self) MeetingsFile = Written" "write_result (disk self) PetitionsFile = Written"
    "write_result (disk self) ParcelsFile = Written" "write_result (disk self) StatsFile = NotOpened e"
  shows "save_data self st meetings (Some geojson) =
     (st\<lparr>meetings_file := Some (Content \<lparr>doc_meetings = meetings,
                                          meetings_last_updated = now (disk self),
                                          meetings_total_count = length meetings\<rparr>),
         petitions_file := Some (Content \<lparr>doc_petitions = all_petitions meetings,
                                           petitions_last_updated = now (disk self),
                                           petitions_total_count = length (all_petitions meetings)\<rparr>),
         parcels_file := Some (Content geojson)\<rparr>,
      Inl e)"
  using assms
  by (simp add: save_data_def save_meetings_def save_petitions_def save_parcels_geojson_def
        save_stats_def write_json_def)

lemma save_data_stats_truncated:
  assumes "write_result (disk self) MeetingsFile = Written" "write_result (disk self) PetitionsFile = Written"
    "write_result (disk self) ParcelsFile = Written" "write_result (disk self) StatsFile = Truncated e"
  shows "save_data self st meetings (Some geojson) =
     (st\<lparr>meetings_file := Some (Content \<lparr>doc_meetings = meetings,
                                          meetings_last_updated = now (disk self),
                                          meetings_total_count = length meetings\<rparr>),
         petitions_file := Some (Content \<lparr>doc_petitions = all_petitions meetings,
                                           petitions_last_updated = now (disk self),
                                           petitions_total_count = length (all_petitions meetings)\<rparr>),
         parcels_file := Some (Content geojson),
         stats_file := Some Unreadable\<rparr>,
      Inl e)"
  using assms
  by (simp add: save_data_def save_meetings_def save_petitions_def save_parcels_geojson_def
        save_stats_def write_json_def)

lemma run_save_failure:
  assumes "scrape_meetings self = Inr ms" "ms \<noteq> []"
    and "save_data self st (process_petitions self ms)
           (Some (fetch_parcel_geometry self (process_petitions self ms))) = (st', Inl e)"
  shows "run self st = (st', False)"
  using assms by (simp add: run_def Let_def)

lemma run_success:
  assumes "scrape_meetings self = Inr ms" "ms \<noteq> []"
    and "write_result (disk self) MeetingsFile = Written" "write_result (disk self) PetitionsFile = Written"
    "write_result (disk self) ParcelsFile = Written" "write_result (disk self) StatsFile = Written"
  shows "snd (run self st) = True"
  using assms
  by (simp add: run_def Let_def save_data_all_written print_summary_def get_stats_def load_petitions_def)

lemma failing_disk:
  "write_result (disk failing_orchestrator) MeetingsFile = Written"
  "write_result (disk failing_orchestrator) PetitionsFile = Written"
  "write_result (disk failing_orchestrator) ParcelsFile = Truncated OSError"
  "write_result (disk failing_orchestrator) StatsFile = Written"
  by (simp_all add: failing_orchestrator_def demo_disk_def)

lemma locked_disk:
  "write_result (disk locked_orchestrator) MeetingsFile = Written"
  "write_result (disk locked_orchestrator) PetitionsFile = Written"
  "write_result (disk locked_orchestrator) ParcelsFile = NotOpened OSError"
  "write_result (disk locked_orchestrator) StatsFile = Written"
  by (simp_all add: locked_orchestrator_def demo_disk_def)

lemma failing_scrape: "scrape_meetings failing_orchestrator = Inr [detailed_meeting]"
proof -
  have "scrape_meetings failing_orchestrator = scrape_meetings demo_orchestrator"
    by (simp add: scrape_meetings_def failing_orchestrator_def)
  then show ?thesis by (simp only: demo_scrape)
qed

lemma locked_scrape: "scrape_meetings locked_orchestrator = Inr [detailed_meeting]"
proof -
  have "scrape_meetings locked_orchestrator = scrape_meetings demo_orchestrator"
    by (simp add: scrape_meetings_def locked_orchestrator_def)
  then show ?thesis by (simp only: demo_scrape)
qed

lemma failing_run:
  "run failing_orchestrator empty_storage =
     (empty_storage
        \<lparr>meetings_file := Some (Content \<lparr>doc_meetings = [detailed_meeting],
                                           meetings_last_updated = now (disk failing_orchestrator),
                                           meetings_total_count = 1\<rparr>),
         petitions_file := Some (Content \<lparr>doc_petitions = all_petitions [detailed_meeting],
                                            petitions_last_updated = now (disk failing_orchestrator),
                                            petitions_total_count = length (all_petitions [detailed_meeting])\<rparr>),
         parcels_file := Some Unreadable\<rparr>,
      False)"
  by (rule run_save_failure [OF failing_scrape])
     (simp_all add: failing_process save_data_parcels_truncated [OF failing_disk(1,2,3)])

text \<open>
  Claim C6 as stated fails: when the write of the parcel file raises (here after the file
  has been opened), the meetings and the petitions are on disk, but the statistics are
  not written, the parcel file is left without a document that loads, and \<open>run\<close> returns
  \<open>False\<close>.
\<close>

theorem geometry_write_failure_fails_run:
  "write_result (disk failing_orchestrator) MeetingsFile = Written
   \<and> write_result (disk failing_orchestrator) PetitionsFile = Written
   \<and> write_result (disk failing_orchestrator) ParcelsFile = Truncated OSError
   \<and> write_result (disk failing_orchestrator) StatsFile = Written
   \<and> meetings_file (fst (run failing_orchestrator empty_storage)) \<noteq> None
   \<and> petitions_file (fst (run failing_orchestrator empty_storage)) \<noteq> None
   \<and> parcels_file (fst (run failing_orchestrator empty_storage)) = Some Unreadable
   \<and> load_parcels_geojson (fst (run failing_orchestrator empty_storage)) = Inl JSONDecodeError
   \<and> stats_file (fst (run failing_orchestrator empty_storage)) = None
   \<and> snd (run failing_orchestrator empty_storage) = False"
  by (simp add: failing_disk failing_run) (simp add: empty_storage_def load_parcels_geojson_def)

text \<open>
  Claim C6, amended. At the end of a run the four artifacts are written in the order
  meetings, petitions, parcel geometry, statistics, each to its own file. When all four
  writes succeed, every file holds the new document. A write that fails stops the
  sequence and its exception is raised again. When the geometry write fails, the meetings
  and the petitions have been written, the statistics write is not attempted (the
  statistics file is left as it was) and the run returns \<open>False\<close>; the parcel file is
  left as it was when the exception came before the file was open, and otherwise it is
  left truncated: it no longer loads. When the statistics write fails, the other three
  have been written, the run returns \<open>False\<close>, and the statistics file is left as it was
  or truncated in the same way.
\<close>

theorem save_data_stops_at_first_failure:
  "write_result (disk self) MeetingsFile = Written \<and> write_result (disk self) PetitionsFile = Written \<longrightarrow>
     (write_result (disk self) ParcelsFile = Written \<and> write_result (disk self) StatsFile = Written \<longrightarrow>
        snd (save_data self st meetings (Some geojson)) = Inr () \<and>
        meetings_file (fst (save_data self st meetings (Some geojson))) =
          Some (Content \<lparr>doc_meetings = meetings, meetings_last_updated = now (disk self),
                          meetings_total_count = length meetings\<rparr>) \<and>
        petitions_file (fst (save_data self st meetings (Some geojson))) =
          Some (Content \<lparr>doc_petitions = all_petitions meetings,
                          petitions_last_updated = now (disk self),
                          petitions_total_count = length (all_petitions meetings)\<rparr>) \<and>
        parcels_file (fst (save_data self st meetings (Some geojson))) = Some (Content geojson) \<and>
        stats_file (fst (save_data self st meetings (Some geojson))) =
          Some (Content (compute_stats (disk self) meetings)))
   \<and> (\<forall>e. write_result (disk self) ParcelsFile = NotOpened e \<or>
            write_result (disk self) ParcelsFile = Truncated e \<longrightarrow>
        snd (save_data self st meetings (Some geojson)) = Inl e \<and>
        meetings_file (fst (save_data self st meetings (Some geojson))) =
          Some (Content \<lparr>doc_meetings = meetings, meetings_last_updated = now (disk self),
                          meetings_total_count = length meetings\<rparr>) \<and>
        petitions_file (fst (save_data self st meetings (Some geojson))) =
          Some (Content \<lparr>doc_petitions = all_petitions meetings,
                          petitions_last_updated = now (disk self),
                          petitions_total_count = length (all_petitions meetings)\<rparr>) \<and>
        stats_file (fst (save_data self st meetings (Some geojson))) = stats_file st \<and>
        (\<forall>ms. scrape_meetings self = Inr ms \<and> ms \<noteq> [] \<longrightarrow>
           snd (run self st) = False \<and>
           meetings_file (fst (run self st)) \<noteq> None \<and>
           petitions_file (fst (run self st)) \<noteq> None \<and>
           stats_file (fst (run self st)) = stats_file st))
   \<and> (\<forall>e. write_result (disk self) ParcelsFile = NotOpened e \<longrightarrow>
        parcels_file (fst (save_data self st meetings (Some geojson))) = parcels_file st \<and>
        (\<forall>ms. scrape_meetings self = Inr ms \<and> ms \<noteq> [] \<longrightarrow>
           parcels_file (fst (run self st)) = parcels_file st))
   \<and> (\<forall>e. write_result (disk self) ParcelsFile = Truncated e \<longrightarrow>
        parcels_file (fst (save_data self st meetings (Some geojson))) = Some Unreadable \<and>
        load_parcels_geojson (fst (save_data self st meetings (Some geojson))) = Inl JSONDecodeError \<and>
        (\<forall>ms. scrape_meetings self = Inr ms \<and> ms \<noteq> [] \<longrightarrow>
           parcels_file (fst (run self st)) = Some Unreadable))
   \<and> (\<forall>e. write_result (disk self) ParcelsFile = Written \<and>
           (write_result (disk self) StatsFile = NotOpened e \<or>
            write_result (disk self) StatsFile = Truncated e) \<longrightarrow>
        snd (save_data self st meetings (Some geojson)) = Inl e \<and>
        parcels_file (fst (save_data self st meetings (Some geojson))) = Some (Content geojson) \<and>
        (\<forall>ms. scrape_meetings self = Inr ms \<and> ms \<noteq> [] \<longrightarrow> snd (run self st) = False))
   \<and> (\<forall>e. write_result (disk self) ParcelsFile = Written \<and>
           write_result (disk self) StatsFile = NotOpened e \<longrightarrow>
        stats_file (fst (save_data self st meetings (Some geojson))) = stats_file st)
   \<and> (\<forall>e. write_result (disk self) ParcelsFile = Written \<and>
           write_result (disk self) StatsFile = Truncated e \<longrightarrow>
        stats_file (fst (save_data self st meetings (Some geojson))) = Some Unreadable \<and>
        get_stats (fst (save_data self st meetings (Some geojson))) = Inl JSONDecodeError)"
  (is "?MP \<longrightarrow> ?A \<and> ?B \<and> ?C \<and> ?D \<and> ?E \<and> ?F \<and> ?G")
proof
  assume ?MP
  then have mp: "write_result (disk self) MeetingsFile = Written"
    "write_result (disk self) PetitionsFile = Written"
    by simp_all
  have A: ?A
  proof (intro impI, elim conjE)
    assume gs: "write_result (disk self) ParcelsFile = Written" "write_result (disk self) StatsFile = Written"
    show "snd (save_data self st meetings (Some geojson)) = Inr () \<and>
        meetings_file (fst (save_data self st meetings (Some geojson))) =
          Some (Content \<lparr>doc_meetings = meetings, meetings_last_updated = now (disk self),
                          meetings_total_count = length meetings\<rparr>) \<and>
        petitions_file (fst (save_data self st meetings (Some geojson))) =
          Some (Content \<lparr>doc_petitions = all_petitions meetings,
                          petitions_last_updated = now (disk self),
                          petitions_total_count = length (all_petitions meetings)\<rparr>) \<and>
        parcels_file (fst (save_data self st meetings (Some geojson))) = Some (Content geojson) \<and>
        stats_file (fst (save_data self st meetings (Some geojson))) =
          Some (Content (compute_stats (disk self) meetings))"
      by (simp add: save_data_all_written [OF mp gs])
  qed
  have run_n: "snd (run self st) = False \<and>
           meetings_file (fst (run self st)) \<noteq> None \<and>
           petitions_file (fst (run self st)) \<noteq> None \<and>
           stats_file (fst (run self st)) = stats_file st \<and>
           parcels_file (fst (run self st)) = parcels_file st"
    if "write_result (disk self) ParcelsFile = NotOpened e" "scrape_meetings self = Inr ms" "ms \<noteq> []"
    for e ms
    by (simp add: run_save_failure [OF that(2,3) save_data_parcels_not_opened [OF mp that(1)]])
  have run_t: "snd (run self st) = False \<and>
           meetings_file (fst (run self st)) \<noteq> None \<and>
           petitions_file (fst (run self st)) \<noteq> None \<and>
           stats_file (fst (run self st)) = stats_file st \<and>
           parcels_file (fst (run self st)) = Some Unreadable"
    if "write_result (disk self) ParcelsFile = Truncated e" "scrape_meetings self = Inr ms" "ms \<noteq> []"
    for e ms
    by (simp add: run_save_failure [OF that(2,3) save_data_parcels_truncated [OF mp that(1)]])
  have B: ?B
  proof (intro allI impI)
    fix e
    assume "write_result (disk self) ParcelsFile = NotOpened e \<or>
            write_result (disk self) ParcelsFile = Truncated e"
    then show "snd (save_data self st meetings (Some geojson)) = Inl e \<and>
        meetings_file (fst (save_data self st meetings (Some geojson))) =
          Some (Content \<lparr>doc_meetings = meetings, meetings_last_updated = now (disk self),
                          meetings_total_count = length meetings\<rparr>) \<and>
        petitions_file (fst (save_data self st meetings (Some geojson))) =
          Some (Content \<lparr>doc_petitions = all_petitions meetings,
                          petitions_last_updated = now (disk self),
                          petitions_total_count = length (all_petitions meetings)\<rparr>) \<and>
        stats_file (fst (save_data self st meetings (Some geojson))) = stats_file st \<and>
        (\<forall>ms. scrape_meetings self = Inr ms \<and> ms \<noteq> [] \<longrightarrow>
           snd (run self st) = False \<and>
           meetings_file (fst (run self st)) \<noteq> None \<and>
           petitions_file (fst (run self st)) \<noteq> None \<and>
           stats_file (fst (run self st)) = stats_file st)"
    proof
      assume g: "write_result (disk self) ParcelsFile = NotOpened e"
      from run_n [OF g]
      have r: "\<forall>ms. scrape_meetings self = Inr ms \<and> ms \<noteq> [] \<longrightarrow>
           snd (run self st) = False \<and>
           meetings_file (fst (run self st)) \<noteq> None \<and>
           petitions_file (fst (run self st)) \<noteq> None \<and>
           stats_file (fst (run self st)) = stats_file st"
        by blast
      show ?thesis
        by (intro conjI r) (simp_all add: save_data_parcels_not_opened [OF mp g])
    next
      assume g: "write_result (disk self) ParcelsFile = Truncated e"
      from run_t [OF g]
      have r: "\<forall>ms. scrape_meetings self = Inr ms \<and> ms \<noteq> [] \<longrightarrow>
           snd (run self st) = False \<and>
           meetings_file (fst (run self st)) \<noteq> None \<and>
           petitions_file (fst (run self st)) \<noteq> None \<and>
           stats_file (fst (run self st)) = stats_file st"
        by blast
      show ?thesis
        by (intro conjI r) (simp_all add: save_data_parcels_truncated [OF mp g])
    qed
  qed
  have C: ?C
  proof (intro allI impI)
    fix e
    assume g: "write_result (disk self) ParcelsFile = NotOpened e"
    from run_n [OF g]
    have r: "\<forall>ms. scrape_meetings self = Inr ms \<and> ms \<noteq> [] \<longrightarrow>
           parcels_file (fst (run self st)) = parcels_file st"
      by blast
    show "parcels_file (fst (save_data self st meetings (Some geojson))) = parcels_file st \<and>
        (\<forall>ms. scrape_meetings self = Inr ms \<and> ms \<noteq> [] \<longrightarrow>
           parcels_file (fst (run self st)) = parcels_file st)"
      by (intro conjI r) (simp_all add: save_data_parcels_not_opened [OF mp g])
  qed
  have D: ?D
  proof (intro allI impI)
    fix e
    assume g: "write_result (disk self) ParcelsFile = Truncated e"
    from run_t [OF g]
    have r: "\<forall>ms. scrape_meetings self = Inr ms \<and> ms \<noteq> [] \<longrightarrow>
           parcels_file (fst (run self st)) = Some Unreadable"
      by blast
    show "parcels_file (fst (save_data self st meetings (Some geojson))) = Some Unreadable \<and>
        load_parcels_geojson (fst (save_data self st meetings (Some geojson))) = Inl JSONDecodeError \<and>
        (\<forall>ms. scrape_meetings self = Inr ms \<and> ms \<noteq> [] \<longrightarrow>
           parcels_file (fst (run self st)) = Some Unreadable)"
      by (intro conjI r)
         (simp_all add: save_data_parcels_truncated [OF mp g] load_parcels_geojson_def)
  qed
  have E: ?E
  proof (intro allI impI, elim conjE)
    fix e
    assume g: "write_result (disk self) ParcelsFile = Written"
    assume "write_result (disk self) StatsFile = NotOpened e \<or>
            write_result (disk self) StatsFile = Truncated e"
    then show "snd (save_data self st meetings (Some geojson)) = Inl e \<and>
        parcels_file (fst (save_data self st meetings (Some geojson))) = Some (Content geojson) \<and>
        (\<forall>ms. scrape_meetings self = Inr ms \<and> ms \<noteq> [] \<longrightarrow> snd (run self st) = False)"
    proof
      assume s: "write_result (disk self) StatsFile = NotOpened e"
      have "snd (run self st) = False" if "scrape_meetings self = Inr ms" "ms \<noteq> []" for ms
        by (simp add: run_save_failure [OF that save_data_stats_not_opened [OF mp g s]])
      then have r: "\<forall>ms. scrape_meetings self = Inr ms \<and> ms \<noteq> [] \<longrightarrow> snd (run self st) = False"
        by blast
      show ?thesis
        by (intro conjI r) (simp_all add: save_data_stats_not_opened [OF mp g s])
    next
      assume s: "write_result (disk self) StatsFile = Truncated e"
      have "snd (run self st) = False" if "scrape_meetings self = Inr ms" "ms \<noteq> []" for ms
        by (simp add: run_save_failure [OF that save_data_stats_truncated [OF mp g s]])
      then have r: "\<forall>ms. scrape_meetings self = Inr ms \<and> ms \<noteq> [] \<longrightarrow> snd (run self st) = False"
        by blast
      show ?thesis
        by (intro conjI r) (simp_all add: save_data_stats_truncated [OF mp g s])
    qed
  qed
  have F: ?F
  proof (intro allI impI, elim conjE)
    fix e
    assume g: "write_result (disk self) ParcelsFile = Written"
      and s: "write_result (disk self) StatsFile = NotOpened e"
    show "stats_file (fst (save_data self st meetings (Some geojson))) = stats_file st"
      by (simp add: save_data_stats_not_opened [OF mp g s])
  qed
  have G: ?G
  proof (intro allI impI, elim conjE)
    fix e
    assume g: "write_result (disk self) ParcelsFile = Written"
      and s: "write_result (disk self) StatsFile = Truncated e"
    show "stats_file (fst (save_data self st meetings (Some geojson))) = Some Unreadable \<and>
        get_stats (fst (save_data self st meetings (Some geojson))) = Inl JSONDecodeError"
      by (simp add: save_data_stats_truncated [OF mp g s] get_stats_def)
  qed
  show "?A \<and> ?B \<and> ?C \<and> ?D \<and> ?E \<and> ?F \<and> ?G"
    by (intro conjI; fact)
qed

text \<open>
  The run on the disk on which the write of the parcel file raises after the file has
  been opened, and the run on the disk on which it raises before, both from an empty data
  directory.
\<close>

theorem save_data_stops_at_first_failure_witness:
  "write_result (disk failing_orchestrator) MeetingsFile = Written
   \<and> write_result (disk failing_orchestrator) PetitionsFile = Written
   \<and> write_result (disk failing_orchestrator) ParcelsFile = Truncated OSError
   \<and> scrape_meetings failing_orchestrator = Inr [detailed_meeting]
   \<and> snd (save_data failing_orchestrator empty_storage [detailed_meeting]
             (Some \<lparr>collection_type = ''FeatureCollection'', features = []\<rparr>)) = Inl OSError
   \<and> parcels_file (fst (save_data failing_orchestrator empty_storage [detailed_meeting]
             (Some \<lparr>collection_type = ''FeatureCollection'', features = []\<rparr>))) = Some Unreadable
   \<and> stats_file (fst (save_data failing_orchestrator empty_storage [detailed_meeting]
             (Some \<lparr>collection_type = ''FeatureCollection'', features = []\<rparr>))) = None
   \<and> snd (run failing_orchestrator empty_storage) = False
   \<and> meetings_file (fst (run failing_orchestrator empty_storage)) \<noteq> None
   \<and> parcels_file (fst (run failing_orchestrator empty_storage)) = Some Unreadable
   \<and> stats_file (fst (run failing_orchestrator empty_storage)) = None
   \<and> write_result (disk locked_orchestrator) MeetingsFile = Written
   \<and> write_result (disk locked_orchestrator) PetitionsFile = Written
   \<and> write_result (disk locked_orchestrator) ParcelsFile = NotOpened OSError
   \<and> scrape_meetings locked_orchestrator = Inr [detailed_meeting]
   \<and> snd (run locked_orchestrator empty_storage) = False
   \<and> parcels_file (fst (run locked_orchestrator empty_storage)) = None
   \<and> stats_file (fst (run locked_orchestrator empty_storage)) = None"
proof -
  note inst = save_data_stops_at_first_failure
    [of failing_orchestrator empty_storage "[detailed_meeting]"
        "\<lparr>collection_type = ''FeatureCollection'', features = []\<rparr>"]
  note inst' = save_data_stops_at_first_failure
    [of locked_orchestrator empty_storage "[detailed_meeting]"
        "\<lparr>collection_type = ''FeatureCollection'', features = []\<rparr>"]
  have n: "[detailed_meeting] \<noteq> []" by simp
  have e: "stats_file empty_storage = None" "parcels_file empty_storage = None"
    by (simp_all add: empty_storage_def)
  from inst failing_disk(1,2,3)
  have a: "snd (save_data failing_orchestrator empty_storage [detailed_meeting]
             (Some \<lparr>collection_type = ''FeatureCollection'', features = []\<rparr>)) = Inl OSError"
    and b: "stats_file (fst (save_data failing_orchestrator empty_storage [detailed_meeting]
             (Some \<lparr>collection_type = ''FeatureCollection'', features = []\<rparr>))) = stats_file empty_storage"
    and b': "parcels_file (fst (save_data failing_orchestrator empty_storage [detailed_meeting]
             (Some \<lparr>collection_type = ''FeatureCollection'', features = []\<rparr>))) = Some Unreadable"
    by blast+
  from inst failing_disk(1,2,3) failing_scrape n
  have c: "snd (run failing_orchestrator empty_storage) = False"
    and d: "meetings_file (fst (run failing_orchestrator empty_storage)) \<noteq> None"
    and f: "stats_file (fst (run failing_orchestrator empty_storage)) = stats_file empty_storage"
    and g: "parcels_file (fst (run failing_orchestrator empty_storage)) = Some Unreadable"
    by blast+
  from inst' locked_disk(1,2,3) locked_scrape n
  have c': "snd (run locked_orchestrator empty_storage) = False"
    and f': "stats_file (fst (run locked_orchestrator empty_storage)) = stats_file empty_storage"
    and g': "parcels_file (fst (run locked_orchestrator empty_storage)) = parcels_file empty_storage"
    by blast+
  from failing_disk(1,2,3) failing_scrape a b b' c d f g locked_disk(1,2,3) locked_scrape c' f' g' e
  show ?thesis by simp
qed

lemma demo_run_succeeds: "snd (run demo_orchestrator empty_storage) = True"
  by (rule run_success [OF demo_scrape]) (simp_all add: demo_orchestrator_def demo_disk_def)

section \<open>Properties of the GIS geometry resolver\<close>

lemma lookup_pin_no_match:
  assumes "gis_query env pin = Inl e \<or> gis_query env pin = Inr []"
  shows "lookup_pin env p mdate mtype pin s = Inr (s\<lparr>total_parcels := total_parcels s + 1\<rparr>)"
  using assms by (auto simp: lookup_pin_def get_parcel_by_pid_def Let_def)

lemma lookup_pin_match:
  assumes "gis_query env pin = Inr (f # fs)" "properties f = JObj d"
  shows "lookup_pin env p mdate mtype pin s =
     Inr \<lparr>all_features = all_features s @
             [f\<lparr>properties := JObj (dict_update d (petition_metadata p mdate mtype))\<rparr>],
          total_parcels = total_parcels s + 1,
          total_found = total_found s + 1\<rparr>"
  using assms by (simp add: lookup_pin_def get_parcel_by_pid_def update_properties_def Let_def)

lemma lookup_pin_not_object:
  assumes "gis_query env pin = Inr (f # fs)" "\<not> object_properties f"
  shows "lookup_pin env p mdate mtype pin s = Inl AttributeError"
  using assms
  by (cases "properties f")
     (simp_all add: lookup_pin_def get_parcel_by_pid_def update_properties_def object_properties_def
        Let_def)

lemma pins_loop_abort:
  assumes "lookup_pin env p mdate mtype pin s = Inl e"
  shows "pins_loop env p mdate mtype (pin # rest) s = Inl e"
  using assms by simp

lemma lookup_pin_eq:
  assumes "\<not> lookup_raises env pin"
  shows "lookup_pin env p mdate mtype pin s =
     Inr \<lparr>all_features = all_features s @ resolve_pin env p mdate mtype pin,
          total_parcels = total_parcels s + 1,
          total_found = total_found s + length (resolve_pin env p mdate mtype pin)\<rparr>"
proof (cases "get_parcel_by_pid env pin")
  case None
  then show ?thesis by (simp add: lookup_pin_def resolve_pin_def Let_def)
next
  case (Some parcel)
  with assms obtain d where "properties parcel = JObj d"
    by (cases "properties parcel") (simp_all add: lookup_raises_def object_properties_def)
  with Some show ?thesis
    by (simp add: lookup_pin_def resolve_pin_def update_properties_def Let_def)
qed

lemma pins_loop_eq:
  assumes "\<forall>pin\<in>set ps. \<not> lookup_raises env pin"
  shows "pins_loop env p mdate mtype ps s =
     Inr \<lparr>all_features = all_features s @ concat (map (resolve_pin env p mdate mtype) ps),
          total_parcels = total_parcels s + length ps,
          total_found = total_found s + length (concat (map (resolve_pin env p mdate mtype) ps))\<rparr>"
  using assms by (induction ps arbitrary: s) (simp_all add: lookup_pin_eq)

lemma fetch_loop_eq:
  assumes "\<forall>p\<in>set ps. \<forall>pin\<in>set (pins_of p). \<not> lookup_raises env pin"
  shows "fetch_loop env ps mdate mtype s =
     Inr \<lparr>all_features = all_features s @
             concat (map (\<lambda>p. concat (map (resolve_pin env p mdate mtype) (pins_of p))) ps),
          total_parcels = total_parcels s + sum_list (map (\<lambda>p. length (pins_of p)) ps),
          total_found = total_found s +
             length (concat (map (\<lambda>p. concat (map (resolve_pin env p mdate mtype) (pins_of p))) ps))\<rparr>"
  using assms by (induction ps arbitrary: s) (simp_all add: pins_loop_eq)

lemma concat_filter_pins:
  "concat (map (\<lambda>p. concat (map (f p) (pins_of p))) (filter (\<lambda>p. pins_of p \<noteq> []) ps)) =
   concat (map (\<lambda>p. concat (map (f p) (pins_of p))) ps)"
  by (induction ps) simp_all

lemma sum_filter_pins:
  "sum_list (map (\<lambda>p. length (pins_of p)) (filter (\<lambda>p. pins_of p \<noteq> []) ps)) =
   sum_list (map (\<lambda>p. length (pins_of p)) ps)"
  by (induction ps) simp_all

lemma fetch_loop_filtered:
  assumes "\<forall>p\<in>set ps. \<forall>pin\<in>set (pins_of p). \<not> lookup_raises env pin"
  shows "fetch_loop env (filter (\<lambda>p. pins_of p \<noteq> []) ps) mdate mtype
           \<lparr>all_features = [], total_parcels = 0, total_found = 0\<rparr> =
     Inr \<lparr>all_features =
             concat (map (\<lambda>p. concat (map (resolve_pin env p mdate mtype) (pins_of p))) ps),
          total_parcels = sum_list (map (\<lambda>p. length (pins_of p)) ps),
          total_found =
             length (concat (map (\<lambda>p. concat (map (resolve_pin env p mdate mtype) (pins_of p))) ps))\<rparr>"
proof -
  from assms
  have "\<forall>p\<in>set (filter (\<lambda>p. pins_of p \<noteq> []) ps). \<forall>pin\<in>set (pins_of p). \<not> lookup_raises env pin"
    by auto
  then show ?thesis
    by (simp only: fetch_loop_eq concat_filter_pins sum_filter_pins) simp
qed

lemma fetch_parcels_features:
  assumes "\<forall>p\<in>set ps. \<forall>pin\<in>set (pins_of p). \<not> lookup_raises env pin"
  shows "fetch_parcels_for_petitions env ps mdate mtype =
     Inr \<lparr>collection_type = ''FeatureCollection'',
          features = concat (map (\<lambda>p. concat (map (resolve_pin env p mdate mtype) (pins_of p))) ps)\<rparr>"
proof (cases "filter (\<lambda>p. pins_of p \<noteq> []) ps = []")
  case True
  then have "concat (map (\<lambda>p. concat (map (resolve_pin env p mdate mtype) (pins_of p)))
               (filter (\<lambda>p. pins_of p \<noteq> []) ps)) = []" by simp
  then have "concat (map (\<lambda>p. concat (map (resolve_pin env p mdate mtype) (pins_of p))) ps) = []"
    by (simp only: concat_filter_pins)
  with True show ?thesis
    by (simp add: fetch_parcels_for_petitions_def empty_geojson_def)
next
  case False
  then show ?thesis
    by (simp add: fetch_parcels_for_petitions_def fetch_loop_filtered [OF assms])
qed

lemma map_of_dict_update:
  "map_of (dict_update d kvs) = map_of d ++ map_of (rev kvs)"
  unfolding dict_update_def
proof (induction kvs arbitrary: d)
  case Nil
  then show ?case by simp
next
  case (Cons kv kvs)
  obtain k v where kv: "kv = (k, v)" by (cases kv)
  have "map_of (fold (\<lambda>(k, v). AList.update k v) (kv # kvs) d) =
        map_of (AList.update k v d) ++ map_of (rev kvs)"
    by (simp add: kv Cons.IH)
  also have "\<dots> = map_of d ++ map_of (rev (kv # kvs))"
    by (simp add: kv update_conv')
  finally show ?case .
qed

lemma metadata_keys: "map fst (petition_metadata p mdate mtype) =
    [''petition_number'', ''file_number'', ''location'', ''status'', ''current_zoning'',
     ''proposed_zoning'', ''petitioner'', ''meeting_date'', ''meeting_type'']"
  by (simp add: petition_metadata_def)

lemma metadata_rev: "map_of (rev (petition_metadata p mdate mtype)) = map_of (petition_metadata p mdate mtype)"
  by (rule ext) (simp add: petition_metadata_def)

lemma augmented_lookup:
  "map_of (dict_update d (petition_metadata p mdate mtype)) k =
     (case map_of (petition_metadata p mdate mtype) k of
        Some v \<Rightarrow> Some v
      | None \<Rightarrow> map_of d k)"
  by (simp add: map_of_dict_update metadata_rev map_add_def)

lemma metadata_values:
  "map_of (petition_metadata p mdate mtype) ''petition_number'' = Some (JStr (number_or_file p))"
  "map_of (petition_metadata p mdate mtype) ''file_number'' = Some (JStr (file_number p))"
  "map_of (petition_metadata p mdate mtype) ''location'' = Some (json_opt (petition.location p))"
  "map_of (petition_metadata p mdate mtype) ''status'' = Some (json_opt (status p))"
  "map_of (petition_metadata p mdate mtype) ''current_zoning'' = Some (json_opt (current_zoning p))"
  "map_of (petition_metadata p mdate mtype) ''proposed_zoning'' = Some (json_opt (proposed_zoning p))"
  "map_of (petition_metadata p mdate mtype) ''petitioner'' = Some (json_opt (petitioner p))"
  "map_of (petition_metadata p mdate mtype) ''meeting_date'' = Some (JStr mdate)"
  "map_of (petition_metadata p mdate mtype) ''meeting_type'' = Some (JStr mtype)"
  by (simp_all add: petition_metadata_def)


lemma demo_gis_answers:
  "gis_query demo_gis_env ''00000000'' = Inr []"
  "gis_query demo_gis_env ''22310197'' = Inr [demo_parcel]"
  "gis_query demo_gis_env ''99999999'' = Inl HTTPError"
  by (simp_all add: demo_gis_env_def demo_parcel_def)

lemma demo_parcel_properties:
  "properties demo_parcel = JObj [(''PID'', JStr ''22310197''), (''status'', JStr ''ACTIVE'')]"
  by (simp add: demo_parcel_def)

lemma demo_gis_never_raises:
  "\<not> lookup_raises demo_gis_env ''00000000''"
  "\<not> lookup_raises demo_gis_env ''22310197''"
  "\<not> lookup_raises demo_gis_env ''99999999''"
  by (simp_all add: lookup_raises_def get_parcel_by_pid_def demo_gis_answers object_properties_def
        demo_parcel_properties)

lemma resolve_no_match:
  assumes "gis_query env pin = Inl e \<or> gis_query env pin = Inr []"
  shows "resolve_pin env p mdate mtype pin = []"
  using assms by (auto simp: resolve_pin_def get_parcel_by_pid_def)

lemma resolve_match:
  assumes "gis_query env pin = Inr (f # fs)" "properties f = JObj d"
  shows "resolve_pin env p mdate mtype pin =
           [f\<lparr>properties := JObj (dict_update d (petition_metadata p mdate mtype))\<rparr>]"
  using assms by (simp add: resolve_pin_def get_parcel_by_pid_def)

lemma number_or_file_cases:
  "(petition_number p = Some n \<and> n \<noteq> [] \<longrightarrow> number_or_file p = n) \<and>
   (petition_number p = None \<or> petition_number p = Some [] \<longrightarrow> number_or_file p = file_number p)"
  by (auto simp: number_or_file_def)

lemma unnumbered_features:
  "fetch_parcels_for_petitions demo_gis_env [unnumbered_petition] ''2026-01-20'' ''Zoning Meeting'' =
     Inr \<lparr>collection_type = ''FeatureCollection'',
          features =
            [\<lparr>geometry = JObj [(''type'', JStr ''Polygon'')],
              properties = JObj
                [(''PID'', JStr ''22310197''), (''status'', JStr ''Approved''),
                 (''petition_number'', JStr ''15-25343''), (''file_number'', JStr ''15-25343''),
                 (''location'', JStr ''123 Main St''), (''current_zoning'', JStr ''R-3''),
                 (''proposed_zoning'', JStr ''UR-2''), (''petitioner'', JStr ''Pappas Properties''),
                 (''meeting_date'', JStr ''2026-01-20''), (''meeting_type'', JStr ''Zoning Meeting'')]\<rparr>]\<rparr>"
proof -
  have p: "pins_of unnumbered_petition = [''00000000'', ''22310197'', ''99999999'']"
    by (simp add: pins_of_def unnumbered_petition_def)
  have ok: "\<forall>p\<in>set [unnumbered_petition]. \<forall>pin\<in>set (pins_of p). \<not> lookup_raises demo_gis_env pin"
    by (simp add: p demo_gis_never_raises)
  have r0: "resolve_pin demo_gis_env unnumbered_petition ''2026-01-20'' ''Zoning Meeting'' ''00000000'' = []"
    and r9: "resolve_pin demo_gis_env unnumbered_petition ''2026-01-20'' ''Zoning Meeting'' ''99999999'' = []"
    by (simp_all add: resolve_no_match demo_gis_answers)
  have m: "petition_metadata unnumbered_petition ''2026-01-20'' ''Zoning Meeting'' =
     [(''petition_number'', JStr ''15-25343''), (''file_number'', JStr ''15-25343''),
      (''location'', JStr ''123 Main St''), (''status'', JStr ''Approved''),
      (''current_zoning'', JStr ''R-3''), (''proposed_zoning'', JStr ''UR-2''),
      (''petitioner'', JStr ''Pappas Properties''),
      (''meeting_date'', JStr ''2026-01-20''), (''meeting_type'', JStr ''Zoning Meeting'')]"
    by (simp add: petition_metadata_def unnumbered_petition_def demo_petition_def number_or_file_def json_opt_def)
  have r2: "resolve_pin demo_gis_env unnumbered_petition ''2026-01-20'' ''Zoning Meeting'' ''22310197'' =
     [\<lparr>geometry = JObj [(''type'', JStr ''Polygon'')],
       properties = JObj
         [(''PID'', JStr ''22310197''), (''status'', JStr ''Approved''),
          (''petition_number'', JStr ''15-25343''), (''file_number'', JStr ''15-25343''),
          (''location'', JStr ''123 Main St''), (''current_zoning'', JStr ''R-3''),
          (''proposed_zoning'', JStr ''UR-2''), (''petitioner'', JStr ''Pappas Properties''),
          (''meeting_date'', JStr ''2026-01-20''), (''meeting_type'', JStr ''Zoning Meeting'')]\<rparr>]"
    unfolding resolve_match [OF demo_gis_answers(2) demo_parcel_properties] m
    by (simp add: demo_parcel_def dict_update_def)
  show ?thesis
    unfolding fetch_parcels_features [OF ok] by (simp add: p r0 r9 r2)
qed

text \<open>
  The update of the properties is not guarded. On the service that answers \<open>11111111\<close>
  with a feature whose \<open>properties\<close> are \<open>null\<close>, the lookup of that identifier raises
  \<open>AttributeError\<close>; the exception leaves \<open>fetch_parcels_for_petitions\<close>, so the
  identifier \<open>22310197\<close> that follows is not looked up, and \<open>_fetch_parcel_geometry\<close>
  stores an empty collection.
\<close>

lemma null_properties_abort:
  "lookup_pin null_gis_env petition_with_null ''2026-01-20'' ''Zoning Meeting'' ''11111111'' s =
     Inl AttributeError"
  "fetch_parcels_for_petitions null_gis_env [petition_with_null] ''2026-01-20'' ''Zoning Meeting'' =
     Inl AttributeError"
  "fetch_parcel_geometry (demo_orchestrator\<lparr>gis := null_gis_env\<rparr>)
     [good_meeting\<lparr>petitions := [petition_with_null]\<rparr>] =
     \<lparr>collection_type = ''FeatureCollection'', features = []\<rparr>"
proof -
  have q: "gis_query null_gis_env ''11111111'' =
      Inr [\<lparr>geometry = JObj [(''type'', JStr ''Polygon'')], properties = JNull\<rparr>]"
    by (simp add: null_gis_env_def)
  have n: "\<not> object_properties \<lparr>geometry = JObj [(''type'', JStr ''Polygon'')], properties = JNull\<rparr>"
    by (simp add: object_properties_def)
  show l: "lookup_pin null_gis_env petition_with_null ''2026-01-20'' ''Zoning Meeting'' ''11111111'' s =
     Inl AttributeError" for s
    by (rule lookup_pin_not_object [OF q n])
  have p: "pins_of petition_with_null = [''11111111'', ''22310197'']"
    by (simp add: pins_of_def petition_with_null_def)
  show f: "fetch_parcels_for_petitions null_gis_env [petition_with_null] ''2026-01-20'' ''Zoning Meeting'' =
     Inl AttributeError"
    by (simp add: fetch_parcels_for_petitions_def p l)
  have "fetch_parcels_for_all_meetings null_gis_env [good_meeting\<lparr>petitions := [petition_with_null]\<rparr>] =
     Inl AttributeError"
    using f by (simp add: fetch_parcels_for_all_meetings_def good_meeting_def)
  then show "fetch_parcel_geometry (demo_orchestrator\<lparr>gis := null_gis_env\<rparr>)
     [good_meeting\<lparr>petitions := [petition_with_null]\<rparr>] =
     \<lparr>collection_type = ''FeatureCollection'', features = []\<rparr>"
    by (simp add: fetch_parcel_geometry_def)
qed

text \<open>
  Claim C7 as stated fails: for a petition without a petition number, the property
  \<open>petition_number\<close> of the feature is the file number of the petition (the source
  writes \<open>petition.petition_number or petition.file_number\<close>); and the attribute
  \<open>status\<close> of the GIS source (\<open>ACTIVE\<close>) is overwritten by the status of the
  petition.
\<close>

theorem unnumbered_petition_feature_carries_file_number:
  "petition_number unnumbered_petition = None
   \<and> file_number unnumbered_petition = ''15-25343''
   \<and> gis_query demo_gis_env ''22310197'' =
        Inr [\<lparr>geometry = JObj [(''type'', JStr ''Polygon'')],
              properties = JObj [(''PID'', JStr ''22310197''), (''status'', JStr ''ACTIVE'')]\<rparr>]
   \<and> fetch_parcels_for_petitions demo_gis_env [unnumbered_petition] ''2026-01-20'' ''Zoning Meeting'' =
     Inr \<lparr>collection_type = ''FeatureCollection'',
          features =
            [\<lparr>geometry = JObj [(''type'', JStr ''Polygon'')],
              properties = JObj
                [(''PID'', JStr ''22310197''), (''status'', JStr ''Approved''),
                 (''petition_number'', JStr ''15-25343''), (''file_number'', JStr ''15-25343''),
                 (''location'', JStr ''123 Main St''), (''current_zoning'', JStr ''R-3''),
                 (''proposed_zoning'', JStr ''UR-2''), (''petitioner'', JStr ''Pappas Properties''),
                 (''meeting_date'', JStr ''2026-01-20''), (''meeting_type'', JStr ''Zoning Meeting'')]\<rparr>]\<rparr>"
  using unnumbered_features
  by (simp add: unnumbered_petition_def demo_petition_def demo_gis_env_def)

text \<open>
  Claim C7, amended. The statement is about the lookups that do not raise: those whose
  request fails, those that return no feature, and those that return a feature whose
  \<open>properties\<close> value is an object. A lookup whose request fails or returns no feature
  contributes no feature, adds one to the counter of attempted parcels and nothing to the
  counter of found parcels, and the loop goes on with the remaining identifiers. A lookup
  with a match whose properties are an object contributes exactly one feature, with the
  geometry of the match and with the properties of the match updated by nine entries:
  \<open>petition_number\<close> (the petition number of the petition, or its file number when it
  has no petition number), \<open>file_number\<close>, \<open>location\<close>, \<open>status\<close>, \<open>current_zoning\<close>,
  \<open>proposed_zoning\<close>, \<open>petitioner\<close>, \<open>meeting_date\<close> and \<open>meeting_type\<close>; every GIS
  attribute with another name keeps its value. When every lookup of a petition list is of
  these kinds, the function returns a collection whose feature list is the concatenation of
  these contributions over all petitions and all their identifiers, in order; the
  attempted counter ends as the number of identifiers and the found counter as the number
  of features.
\<close>

theorem gis_lookups_independent:
  "(gis_query env pin = Inl e \<or> gis_query env pin = Inr [] \<longrightarrow>
      resolve_pin env p mdate mtype pin = [] \<and>
      lookup_pin env p mdate mtype pin s = Inr (s\<lparr>total_parcels := total_parcels s + 1\<rparr>) \<and>
      pins_loop env p mdate mtype (pin # rest) s =
        pins_loop env p mdate mtype rest (s\<lparr>total_parcels := total_parcels s + 1\<rparr>))
   \<and> (gis_query env pin = Inr (f # fs) \<and> properties f = JObj d \<longrightarrow>
        (\<exists>d'. resolve_pin env p mdate mtype pin = [f\<lparr>properties := JObj d'\<rparr>] \<and>
           lookup_pin env p mdate mtype pin s =
             Inr \<lparr>all_features = all_features s @ [f\<lparr>properties := JObj d'\<rparr>],
                  total_parcels = total_parcels s + 1,
                  total_found = total_found s + 1\<rparr> \<and>
           (\<forall>k. map_of d' k =
                  (case map_of (petition_metadata p mdate mtype) k of
                     Some v \<Rightarrow> Some v
                   | None \<Rightarrow> map_of d k))))
   \<and> map fst (petition_metadata p mdate mtype) =
        [''petition_number'', ''file_number'', ''location'', ''status'', ''current_zoning'',
         ''proposed_zoning'', ''petitioner'', ''meeting_date'', ''meeting_type'']
   \<and> map_of (petition_metadata p mdate mtype) ''petition_number'' = Some (JStr (number_or_file p))
   \<and> (petition_number p = Some n \<and> n \<noteq> [] \<longrightarrow> number_or_file p = n)
   \<and> (petition_number p = None \<or> petition_number p = Some [] \<longrightarrow> number_or_file p = file_number p)
   \<and> map_of (petition_metadata p mdate mtype) ''file_number'' = Some (JStr (file_number p))
   \<and> map_of (petition_metadata p mdate mtype) ''location'' = Some (json_opt (petition.location p))
   \<and> map_of (petition_metadata p mdate mtype) ''status'' = Some (json_opt (status p))
   \<and> map_of (petition_metadata p mdate mtype) ''current_zoning'' = Some (json_opt (current_zoning p))
   \<and> map_of (petition_metadata p mdate mtype) ''proposed_zoning'' = Some (json_opt (proposed_zoning p))
   \<and> map_of (petition_metadata p mdate mtype) ''petitioner'' = Some (json_opt (petitioner p))
   \<and> map_of (petition_metadata p mdate mtype) ''meeting_date'' = Some (JStr mdate)
   \<and> map_of (petition_metadata p mdate mtype) ''meeting_type'' = Some (JStr mtype)
   \<and> ((\<forall>q\<in>set ps. \<forall>i\<in>set (pins_of q). \<not> lookup_raises env i) \<longrightarrow>
        fetch_parcels_for_petitions env ps mdate mtype =
          Inr \<lparr>collection_type = ''FeatureCollection'',
               features =
                 concat (map (\<lambda>q. concat (map (resolve_pin env q mdate mtype) (pins_of q))) ps)\<rparr> \<and>
        (\<exists>s'. fetch_loop env (filter (\<lambda>q. pins_of q \<noteq> []) ps) mdate mtype
                 \<lparr>all_features = [], total_parcels = 0, total_found = 0\<rparr> = Inr s' \<and>
              total_parcels s' = sum_list (map (\<lambda>q. length (pins_of q)) ps) \<and>
              total_found s' = length (all_features s')))"
  (is "?A \<and> ?B \<and> ?K \<and> ?V1 \<and> ?N1 \<and> ?N2 \<and> ?V2 \<and> ?V3 \<and> ?V4 \<and> ?V5 \<and> ?V6 \<and> ?V7 \<and> ?V8 \<and> ?V9 \<and> ?L")
proof -
  have A: ?A
  proof
    assume h: "gis_query env pin = Inl e \<or> gis_query env pin = Inr []"
    show "resolve_pin env p mdate mtype pin = [] \<and>
      lookup_pin env p mdate mtype pin s = Inr (s\<lparr>total_parcels := total_parcels s + 1\<rparr>) \<and>
      pins_loop env p mdate mtype (pin # rest) s =
        pins_loop env p mdate mtype rest (s\<lparr>total_parcels := total_parcels s + 1\<rparr>)"
      by (simp add: resolve_no_match [OF h] lookup_pin_no_match [OF h])
  qed
  have B: ?B
  proof
    assume "gis_query env pin = Inr (f # fs) \<and> properties f = JObj d"
    then have h: "gis_query env pin = Inr (f # fs)" "properties f = JObj d" by simp_all
    show "\<exists>d'. resolve_pin env p mdate mtype pin = [f\<lparr>properties := JObj d'\<rparr>] \<and>
           lookup_pin env p mdate mtype pin s =
             Inr \<lparr>all_features = all_features s @ [f\<lparr>properties := JObj d'\<rparr>],
                  total_parcels = total_parcels s + 1,
                  total_found = total_found s + 1\<rparr> \<and>
           (\<forall>k. map_of d' k =
                  (case map_of (petition_metadata p mdate mtype) k of
                     Some v \<Rightarrow> Some v
                   | None \<Rightarrow> map_of d k))"
      by (rule exI [of _ "dict_update d (petition_metadata p mdate mtype)"])
         (simp add: resolve_match [OF h] lookup_pin_match [OF h] augmented_lookup)
  qed
  have N1: ?N1 using number_or_file_cases [of p n] by blast
  have N2: ?N2 using number_or_file_cases [of p n] by blast
  have L: ?L
  proof
    assume h: "\<forall>q\<in>set ps. \<forall>i\<in>set (pins_of q). \<not> lookup_raises env i"
    show "fetch_parcels_for_petitions env ps mdate mtype =
          Inr \<lparr>collection_type = ''FeatureCollection'',
               features =
                 concat (map (\<lambda>q. concat (map (resolve_pin env q mdate mtype) (pins_of q))) ps)\<rparr> \<and>
        (\<exists>s'. fetch_loop env (filter (\<lambda>q. pins_of q \<noteq> []) ps) mdate mtype
                 \<lparr>all_features = [], total_parcels = 0, total_found = 0\<rparr> = Inr s' \<and>
              total_parcels s' = sum_list (map (\<lambda>q. length (pins_of q)) ps) \<and>
              total_found s' = length (all_features s'))"
      by (simp add: fetch_parcels_features [OF h] fetch_loop_filtered [OF h])
  qed
  note K = metadata_keys [of p mdate mtype]
  note V = metadata_values [of p mdate mtype]
  show ?thesis
    by (intro conjI A B K V N1 N2 L)
qed

text \<open>
  The example petition with its three identifiers: the failed request and the empty
  answer contribute nothing and the loop goes on after them, the known parcel contributes
  one feature that keeps its \<open>PID\<close> and carries the petition number; three lookups are
  attempted and one is found.
\<close>

theorem gis_lookups_independent_witness:
  "gis_query demo_gis_env ''99999999'' = Inl HTTPError
   \<and> resolve_pin demo_gis_env petition_with_pins ''2026-01-20'' ''Zoning Meeting'' ''99999999'' = []
   \<and> gis_query demo_gis_env ''00000000'' = Inr []
   \<and> resolve_pin demo_gis_env petition_with_pins ''2026-01-20'' ''Zoning Meeting'' ''00000000'' = []
   \<and> gis_query demo_gis_env ''22310197'' = Inr [demo_parcel]
   \<and> properties demo_parcel = JObj [(''PID'', JStr ''22310197''), (''status'', JStr ''ACTIVE'')]
   \<and> (\<exists>d'. resolve_pin demo_gis_env petition_with_pins ''2026-01-20'' ''Zoning Meeting'' ''22310197'' =
             [demo_parcel\<lparr>properties := JObj d'\<rparr>]
          \<and> map_of d' ''PID'' = Some (JStr ''22310197'')
          \<and> map_of d' ''petition_number'' = Some (JStr ''2025-142''))
   \<and> petition_number petition_with_pins = Some ''2025-142''
   \<and> number_or_file petition_with_pins = ''2025-142''
   \<and> list_all (\<lambda>i. \<not> lookup_raises demo_gis_env i) (pins_of petition_with_pins)
   \<and> (\<exists>s'. fetch_loop demo_gis_env [petition_with_pins] ''2026-01-20'' ''Zoning Meeting''
               \<lparr>all_features = [], total_parcels = 0, total_found = 0\<rparr> = Inr s'
          \<and> total_parcels s' = 3 \<and> total_found s' = 1)"
proof -
  let ?r = "resolve_pin demo_gis_env petition_with_pins ''2026-01-20'' ''Zoning Meeting''"
  let ?d = "[(''PID'', JStr ''22310197''), (''status'', JStr ''ACTIVE'')]"
  let ?z = "\<lparr>all_features = [], total_parcels = 0, total_found = 0\<rparr>"
  have pn: "petition_number petition_with_pins = Some ''2025-142''"
    by (simp add: petition_with_pins_def demo_petition_def)
  have ne: "''2025-142'' \<noteq> []" by simp
  have pins: "pins_of petition_with_pins = [''00000000'', ''22310197'', ''99999999'']"
    by (simp add: pins_of_def petition_with_pins_def)
  have flt: "filter (\<lambda>q. pins_of q \<noteq> []) [petition_with_pins] = [petition_with_pins]"
    by (simp add: pins)
  have ok: "\<forall>q\<in>set [petition_with_pins]. \<forall>i\<in>set (pins_of q). \<not> lookup_raises demo_gis_env i"
    by (simp add: pins demo_gis_never_raises)
  have okl: "list_all (\<lambda>i. \<not> lookup_raises demo_gis_env i) (pins_of petition_with_pins)"
    by (simp add: pins demo_gis_never_raises)
  note i9 = gis_lookups_independent
    [of demo_gis_env "''99999999''" HTTPError petition_with_pins "''2026-01-20''" "''Zoning Meeting''"
        ?z "[]" demo_parcel "[]" ?d "''2025-142''" "[petition_with_pins]"]
  note i0 = gis_lookups_independent
    [of demo_gis_env "''00000000''" HTTPError petition_with_pins "''2026-01-20''" "''Zoning Meeting''"
        ?z "[]" demo_parcel "[]" ?d "''2025-142''" "[petition_with_pins]"]
  note i2 = gis_lookups_independent
    [of demo_gis_env "''22310197''" HTTPError petition_with_pins "''2026-01-20''" "''Zoning Meeting''"
        ?z "[]" demo_parcel "[]" ?d "''2025-142''" "[petition_with_pins]"]
  from i9 demo_gis_answers(3) have r9: "?r ''99999999'' = []" by blast
  from i0 demo_gis_answers(1) have r0: "?r ''00000000'' = []" by blast
  from i2 pn ne have nf: "number_or_file petition_with_pins = ''2025-142''" by blast
  from i2 have v: "map_of (petition_metadata petition_with_pins ''2026-01-20'' ''Zoning Meeting'') ''petition_number''
        = Some (JStr (number_or_file petition_with_pins))"
    by blast
  from i2 have k: "map fst (petition_metadata petition_with_pins ''2026-01-20'' ''Zoning Meeting'') =
        [''petition_number'', ''file_number'', ''location'', ''status'', ''current_zoning'',
         ''proposed_zoning'', ''petitioner'', ''meeting_date'', ''meeting_type'']"
    by blast
  have "''PID'' \<notin> set (map fst (petition_metadata petition_with_pins ''2026-01-20'' ''Zoning Meeting''))"
    unfolding k by simp
  then have nopid: "map_of (petition_metadata petition_with_pins ''2026-01-20'' ''Zoning Meeting'') ''PID'' = None"
    by (simp add: map_of_eq_None_iff)
  from i2 demo_gis_answers(2) demo_parcel_properties obtain d' where
    d': "?r ''22310197'' = [demo_parcel\<lparr>properties := JObj d'\<rparr>]"
    "\<forall>k. map_of d' k =
        (case map_of (petition_metadata petition_with_pins ''2026-01-20'' ''Zoning Meeting'') k of
           Some v \<Rightarrow> Some v | None \<Rightarrow> map_of ?d k)"
    by blast
  from d'(2) nopid have pid: "map_of d' ''PID'' = Some (JStr ''22310197'')"
    by simp
  from d'(2) v nf have num: "map_of d' ''petition_number'' = Some (JStr ''2025-142'')"
    by simp
  from i2 ok obtain s' where
    s': "fetch_loop demo_gis_env (filter (\<lambda>q. pins_of q \<noteq> []) [petition_with_pins])
           ''2026-01-20'' ''Zoning Meeting'' ?z = Inr s'"
      "total_parcels s' = sum_list (map (\<lambda>q. length (pins_of q)) [petition_with_pins])"
      "total_found s' = length (all_features s')"
    by blast
  from s'(2) pins have t3: "total_parcels s' = 3" by simp
  have "fetch_loop demo_gis_env [petition_with_pins] ''2026-01-20'' ''Zoning Meeting'' ?z =
          Inr \<lparr>all_features = [demo_parcel\<lparr>properties := JObj d'\<rparr>], total_parcels = 3, total_found = 1\<rparr>"
    unfolding fetch_loop_eq [OF ok] by (simp add: pins r0 r9 d'(1))
  moreover from s'(1) have s1: "fetch_loop demo_gis_env [petition_with_pins] ''2026-01-20'' ''Zoning Meeting'' ?z = Inr s'"
    unfolding flt .
  ultimately have "s' = \<lparr>all_features = [demo_parcel\<lparr>properties := JObj d'\<rparr>], total_parcels = 3, total_found = 1\<rparr>"
    by (simp only: sum.inject)
  then have t1: "total_found s' = 1" by simp
  from s1 t3 t1
  have lp: "\<exists>s'. fetch_loop demo_gis_env [petition_with_pins] ''2026-01-20'' ''Zoning Meeting'' ?z = Inr s'
          \<and> total_parcels s' = 3 \<and> total_found s' = 1"
    by auto
  from d'(1) pid num have ex: "\<exists>d'. ?r ''22310197'' = [demo_parcel\<lparr>properties := JObj d'\<rparr>]
          \<and> map_of d' ''PID'' = Some (JStr ''22310197'')
          \<and> map_of d' ''petition_number'' = Some (JStr ''2025-142'')"
    by blast
  from demo_gis_answers demo_parcel_properties r9 r0 ex pn nf okl lp show ?thesis by blast
qed

end
